theory Spec2Isabelle
  imports Main
begin

section \<open>JavaScript strings\<close>

text \<open>
  A string is a list of UTF-16 code units. The model covers the texts whose units are
  below 256 and writes such a unit as a \<^typ>\<open>char\<close>. The white space of
  \<open>String.prototype.trim\<close> and of the regular expression class \<open>\s\<close> is the part of the
  ECMAScript white space and line terminator set that lies in this range.
\<close>

definition isWhiteSpace :: "char \<Rightarrow> bool" where
  "isWhiteSpace c = (c \<in> set [CHR 0x09, CHR 0x0A, CHR 0x0B, CHR 0x0C, CHR 0x0D, CHR 0x20, CHR 0xA0])"

definition trim :: "string \<Rightarrow> string" where
  "trim s = rev (dropWhile isWhiteSpace (rev (dropWhile isWhiteSpace s)))"

text \<open>
  \<open>toLowerCase\<close> on these units: the letters \<open>A\<close>..\<open>Z\<close> and the capital letters
  0xC0..0xDE (but the multiplication sign 0xD7) move up by 32, every other unit stays;
  the result lies in the range again.
\<close>

definition lowerCode :: "nat \<Rightarrow> nat" where
  "lowerCode n =
     (if (65 \<le> n \<and> n \<le> 90) \<or> (192 \<le> n \<and> n \<le> 222 \<and> n \<noteq> 215) then n + 32 else n)"

definition toLowerCase :: "string \<Rightarrow> string" where
  "toLowerCase s = map (\<lambda>c. char_of (lowerCode (of_char c))) s"

text \<open>
  \<open>toUpperCase\<close> on these units: the letters \<open>a\<close>..\<open>z\<close> and the small letters 0xE0..0xFE
  (but the division sign 0xF7) move down by 32; the micro sign 0xB5 becomes U+039C and
  the y with diaeresis 0xFF becomes U+0178, both above the range; the sharp s 0xDF
  becomes the two units \<open>SS\<close>; every other unit stays. The result is therefore a list of
  unit numbers, and can be longer than the text.
\<close>

definition upperUnits :: "nat \<Rightarrow> nat list" where
  "upperUnits n =
     (if 97 \<le> n \<and> n \<le> 122 then [n - 32]
      else if n = 181 then [924]
      else if n = 223 then [83, 83]
      else if 224 \<le> n \<and> n \<le> 254 \<and> n \<noteq> 247 then [n - 32]
      else if n = 255 then [376]
      else [n])"

definition toUpperCase :: "string \<Rightarrow> nat list" where
  "toUpperCase s = concat (map (\<lambda>c. upperUnits (of_char c)) s)"

text \<open>\<open>s.slice(0, n)\<close> and \<open>s.slice(-n)\<close> for a literal \<open>n\<close>.\<close>

definition sliceTo :: "string \<Rightarrow> nat \<Rightarrow> string" where
  "sliceTo s n = take n s"

definition sliceLast :: "string \<Rightarrow> nat \<Rightarrow> string" where
  "sliceLast s n = drop (length s - n) s"

text \<open>\<open>s.includes(t)\<close>: \<open>t\<close> occurs in \<open>s\<close> as a contiguous run.\<close>

fun strIncludes :: "string \<Rightarrow> string \<Rightarrow> bool" where
  "strIncludes [] t = (t = [])"
| "strIncludes (c # s) t = (take (length t) (c # s) = t \<or> strIncludes s t)"

section \<open>The wizard: helpers of \<open>App.tsx\<close>\<close>

definition safeTrimMax :: "string \<Rightarrow> nat \<Rightarrow> string" where
  "safeTrimMax v maxLen = sliceTo (trim v) maxLen"

text \<open>
  \<open>isValidEmail\<close> tests \<open>/^[^\s@]+@[^\s@]+\.[^\s@]+$/\<close> on the trimmed text: no white
  space, exactly one \<open>@\<close> with something before it, and behind it a dot that is neither
  the first nor the last unit.
\<close>

definition isValidEmail :: "string \<Rightarrow> bool" where
  "isValidEmail e =
     (let t = trim e;
          l = takeWhile (\<lambda>c. c \<noteq> CHR ''@'') t;
          r = drop (length l) t
      in l \<noteq> [] \<and> \<not> list_ex isWhiteSpace t \<and>
         (case r of [] \<Rightarrow> False
          | _ # d \<Rightarrow> CHR ''@'' \<notin> set d \<and> CHR ''.'' \<in> set (butlast (tl d))))"

definition chars :: string where
  "chars = ''ABCDEFGHJKLMNPQRSTUVWXYZ23456789''"

text \<open>
  \<open>generateAccessCode\<close> runs its loop eight times; each round appends
  \<open>chars[Math.floor(Math.random() * chars.length)]\<close>. The model is given the eight
  indices drawn, each below \<open>chars.length\<close> because \<open>Math.random()\<close> is below 1.
\<close>

definition validDraws :: "nat list \<Rightarrow> bool" where
  "validDraws ds = (length ds = 8 \<and> list_all (\<lambda>d. d < length chars) ds)"

fun generateLoop :: "nat list \<Rightarrow> string \<Rightarrow> string" where
  "generateLoop [] out = out"
| "generateLoop (d # ds) out = generateLoop ds (out @ [chars ! d])"

definition generateAccessCode :: "nat list \<Rightarrow> string" where
  "generateAccessCode ds = generateLoop (take 8 ds) ''''"

section \<open>The wizard: session state\<close>

datatype View = Landing | P2 | P3 | P4 | P5 | Info
datatype P5Stage = Email | Code
datatype SendState = Idle | Sending | Sent | Error
datatype Letter = LetterB | LetterA | LetterL

text \<open>
  The continuations handed to \<open>showReward\<close>: \<open>() => goTo("p3")\<close>, \<open>() => goTo("p4")\<close>
  and the one of \<open>submitEmailFromP5\<close> that sets the stage to \<open>"code"\<close>.
\<close>

datatype After = GoTo View | EnterCode

text \<open>A pending \<open>window.setTimeout\<close>: its id, its delay and its continuation.\<close>

datatype Timeout = Timeout (tid: nat) (holdMs: nat) (after: After)

section \<open>The lead payload\<close>

datatype json = JNull | JBool bool | JNum int | JStr string
  | JArr "json list" | JObj "(string \<times> json) list"

record CrmCanonPayload =
  source :: string
  requestId :: string
  startedAt :: string
  tracking :: "(string \<times> json) list"
  applicant :: "(string \<times> json) list"

text \<open>What \<open>buildCanonPayload\<close> reads from the browser.\<close>

record Browser =
  newRequestId :: string
  nowIso :: string
  userAgent :: "string option"
  pageUrl :: "string option"
  referrer :: "string option"

definition CRM_SOURCE :: string where
  "CRM_SOURCE = ''balance-cypher-v2-clean''"

text \<open>A property whose value is \<open>undefined\<close> is absent from the serialised object.\<close>

definition optField :: "string \<Rightarrow> string option \<Rightarrow> (string \<times> json) list" where
  "optField k v = (case v of None \<Rightarrow> [] | Some x \<Rightarrow> [(k, JStr x)])"

definition buildCanonPayload ::
  "Browser \<Rightarrow> string \<Rightarrow> string \<Rightarrow> string \<Rightarrow> string \<Rightarrow> CrmCanonPayload" where
  "buildCanonPayload br pFirstName pLastName pEmail pAccessCode =
     \<lparr> source = CRM_SOURCE,
       requestId = newRequestId br,
       startedAt = nowIso br,
       tracking =
         [(''event'', JStr ''decode_email_submit''),
          (''accessCode'', JStr pAccessCode)]
         @ optField ''userAgent'' (userAgent br)
         @ optField ''pageUrl'' (pageUrl br)
         @ optField ''referrer'' (referrer br),
       applicant =
         [(''firstName'', JStr (safeTrimMax pFirstName 40)),
          (''lastName'', JStr (safeTrimMax pLastName 60)),
          (''email'', JStr (safeTrimMax pEmail 120)),
          (''phone'', JStr ''''),
          (''consent'', JBool True),
          (''vehicleType'', JStr ''''),
          (''incomeAbove1800'', JStr ''''),
          (''monthlyIncome'', JStr ''''),
          (''yearsReceivingIncome'', JNum 0),
          (''monthsReceivingIncome'', JNum 0),
          (''dobMonth'', JNum 0),
          (''dobDay'', JNum 0),
          (''dobYear'', JNum 0),
          (''companyName'', JStr ''''),
          (''jobTitle'', JStr ''''),
          (''housingPayment'', JStr ''''),
          (''street1'', JStr ''''),
          (''street2'', JStr ''''),
          (''city'', JStr ''''),
          (''state'', JStr ''''),
          (''zip'', JStr ''''),
          (''yearsAtAddress'', JNum 0),
          (''monthsAtAddress'', JNum 0),
          (''ssn'', JStr '''')] \<rparr>"

record Wizard =
  view :: View
  fatalError :: "string option"
  firstName :: string
  lastName :: string
  email :: string
  accessCode :: string
  codeInput :: string
  p2First :: string
  p5Stage :: P5Stage
  sendState :: SendState
  sendMsg :: string
  rewardOn :: bool
  rewardLetter :: "Letter option"
  rewardCopy :: string
  rewardTimerRef :: "nat option"
  timeouts :: "Timeout list"
  timeoutSeq :: nat
  posted :: "CrmCanonPayload list"
  inFlight :: "CrmCanonPayload list"

text \<open>
  Beside the React state and the \<open>rewardTimerRef\<close> cell the record holds what the browser
  keeps for the component: \<open>timeouts\<close>, the timeouts set and neither fired nor cleared
  (\<open>timeoutSeq\<close> is the last id handed out, ids start at 1); \<open>posted\<close>, every payload
  handed to \<open>fetch\<close>, latest first; \<open>inFlight\<close>, those whose \<open>postToCrm\<close> has not settled.
  The timeouts that only move the input focus do not write any of these fields and are
  left out.
\<close>

definition initial :: Wizard where
  "initial = \<lparr> view = Landing, fatalError = None, firstName = '''', lastName = '''',
     email = '''', accessCode = '''', codeInput = '''', p2First = '''', p5Stage = Email,
     sendState = Idle, sendMsg = '''', rewardOn = False, rewardLetter = None,
     rewardCopy = '''', rewardTimerRef = None, timeouts = [], timeoutSeq = 0,
     posted = [], inFlight = [] \<rparr>"

section \<open>The wizard: handlers\<close>

definition clearRewardTimer :: "Wizard \<Rightarrow> Wizard" where
  "clearRewardTimer w =
     (case rewardTimerRef w of
        None \<Rightarrow> w
      | Some i \<Rightarrow>
          if i \<noteq> 0
          then w\<lparr> timeouts := filter (\<lambda>t. tid t \<noteq> i) (timeouts w), rewardTimerRef := None \<rparr>
          else w)"

definition showReward :: "Letter \<Rightarrow> string \<Rightarrow> nat \<Rightarrow> After \<Rightarrow> Wizard \<Rightarrow> Wizard" where
  "showReward letter copy ms aft w =
     (let w1 = clearRewardTimer w; i = Suc (timeoutSeq w1)
      in w1\<lparr> rewardLetter := Some letter, rewardCopy := copy, rewardOn := True,
              rewardTimerRef := Some i, timeouts := timeouts w1 @ [Timeout i ms aft],
              timeoutSeq := i \<rparr>)"

definition goTo :: "View \<Rightarrow> Wizard \<Rightarrow> Wizard" where
  "goTo v w = w\<lparr> view := v \<rparr>"

definition resetFlow :: "Wizard \<Rightarrow> Wizard" where
  "resetFlow w =
     (let w1 = w\<lparr> p2First := '''', firstName := '''', lastName := '''', email := '''',
                   accessCode := '''', codeInput := '''', p5Stage := Email,
                   sendState := Idle, sendMsg := '''' \<rparr>;
          w2 = clearRewardTimer w1
      in w2\<lparr> rewardOn := False, rewardLetter := None, rewardCopy := '''',
              fatalError := None \<rparr>)"

definition goToDecode :: "Wizard \<Rightarrow> Wizard" where
  "goToDecode w = goTo P2 (resetFlow w)"

definition submitFirstFromP2 :: "Wizard \<Rightarrow> Wizard" where
  "submitFirstFromP2 w =
     (if rewardOn w then w
      else let fn = safeTrimMax (p2First w) 40
           in if fn = '''' then w
              else showReward LetterB '''' 950 (GoTo P3) (w\<lparr> firstName := fn \<rparr>))"

text \<open>The overlay text of \<open>submitLast\<close>, its dash and apostrophe written in ASCII.\<close>

definition awakeningCopy :: string where
  "awakeningCopy =
     ''When was the last time you felt a shift inside you-and you knew you couldn''
     @ [CHR 0x27] @ ''t go back?'' @ [CHR 0x0A]
     @ ''Not because life got easier. Because you finally saw it.''"

definition submitLast :: "Wizard \<Rightarrow> Wizard" where
  "submitLast w =
     (if rewardOn w then w
      else let ln = safeTrimMax (lastName w) 60
           in if ln = '''' then w
              else showReward LetterA awakeningCopy 2300 (GoTo P4) (w\<lparr> lastName := ln \<rparr>))"

definition continueFromAwakening :: "Wizard \<Rightarrow> Wizard" where
  "continueFromAwakening w =
     (if rewardOn w then w
      else goTo P5 (w\<lparr> p5Stage := Email, sendState := Idle, sendMsg := '''' \<rparr>))"

text \<open>
  \<open>submitEmailFromP5\<close> up to its \<open>await\<close>: the guards, the state written, and the
  payload handed to \<open>fetch\<close> by \<open>postToCrm\<close>.
\<close>

definition submitEmailFromP5 :: "Browser \<Rightarrow> nat list \<Rightarrow> Wizard \<Rightarrow> Wizard" where
  "submitEmailFromP5 br ds w =
     (if rewardOn w then w
      else if sendState w = Sending then w
      else let em = safeTrimMax (email w) 120
           in if \<not> isValidEmail em then w
              else let nextCode = (if accessCode w \<noteq> '''' then accessCode w
                                   else generateAccessCode ds);
                       payload = buildCanonPayload br (firstName w) (lastName w) em nextCode
                   in w\<lparr> email := em, accessCode := nextCode, sendState := Sending,
                          sendMsg := ''Sending your map delivery request...'',
                          posted := payload # posted w,
                          inFlight := inFlight w @ [payload] \<rparr>)"

text \<open>
  How \<open>postToCrm\<close> settles: it returns a result, of which only \<open>requestId\<close> is read, or
  it throws an error, of which only \<open>message\<close> is read. (The arrow in the fallback
  message is written in ASCII.)
\<close>

datatype CrmOutcome = CrmResult "string option" | CrmThrown string

definition settleEmail :: "CrmOutcome \<Rightarrow> Wizard \<Rightarrow> Wizard" where
  "settleEmail oc w =
     (case oc of
        CrmResult rid \<Rightarrow>
          showReward LetterL ''Map delivery unlocked.'' 1150 EnterCode
            (w\<lparr> sendState := Sent,
                sendMsg := ''Request sent.'' @
                  (case rid of None \<Rightarrow> ''''
                   | Some r \<Rightarrow> if r = '''' then '''' else '' (requestId: '' @ r @ '')'') \<rparr>)
      | CrmThrown msg \<Rightarrow>
          w\<lparr> sendState := Error,
             sendMsg := (if msg \<noteq> '''' then msg
                         else ''Failed to send. Open DevTools -> Network to see the request.'') \<rparr>)"

definition submitCode :: "Wizard \<Rightarrow> Wizard" where
  "submitCode w =
     (if rewardOn w then w
      else let expected = toUpperCase (trim (accessCode w));
               entered = toUpperCase (trim (codeInput w))
           in if entered = '''' then w
              else if expected \<noteq> '''' \<and> entered \<noteq> expected then w
              else goTo Info w)"

text \<open>The callback \<open>showReward\<close> hands to \<open>window.setTimeout\<close>.\<close>

definition runAfter :: "After \<Rightarrow> Wizard \<Rightarrow> Wizard" where
  "runAfter a w = (case a of GoTo v \<Rightarrow> goTo v w | EnterCode \<Rightarrow> w\<lparr> p5Stage := Code \<rparr>)"

definition rewardTimeout :: "After \<Rightarrow> Wizard \<Rightarrow> Wizard" where
  "rewardTimeout a w =
     runAfter a (w\<lparr> rewardOn := False, rewardLetter := None, rewardCopy := '''',
                    rewardTimerRef := None \<rparr>)"

section \<open>The wizard: events\<close>

text \<open>
  What can happen to a session, as the JSX wires it: a control exists while its view is
  rendered and takes input while it is not \<open>disabled\<close>; a pending timeout fires; a pending
  \<open>postToCrm\<close> settles; the window reports a runtime error. Every handler runs on the
  state committed by the events before it.
\<close>

datatype Event =
    RuntimeError string
  | DismissFatal
  | ClickStart
  | TypeFirst string
  | SubmitFirst
  | TypeLast string
  | SubmitLast
  | ClickContinue
  | TypeEmail string
  | SubmitEmail Browser "nat list"
  | CrmSettles nat CrmOutcome
  | TypeCode string
  | SubmitCode
  | BackToStart
  | TimeoutFires nat

definition emailOnChange :: "string \<Rightarrow> Wizard \<Rightarrow> Wizard" where
  "emailOnChange v w =
     (let w1 = w\<lparr> email := v \<rparr>
      in if sendState w \<noteq> Idle then w1\<lparr> sendState := Idle, sendMsg := '''' \<rparr> else w1)"

definition guarded :: "bool \<Rightarrow> Wizard \<Rightarrow> Wizard option" where
  "guarded enabled w = (if enabled then Some w else None)"

fun step :: "Event \<Rightarrow> Wizard \<Rightarrow> Wizard option" where
  "step (RuntimeError msg) w = Some (w\<lparr> fatalError := Some msg \<rparr>)"
| "step DismissFatal w = guarded (fatalError w \<noteq> None) (w\<lparr> fatalError := None \<rparr>)"
| "step ClickStart w = guarded (view w = Landing) (goToDecode w)"
| "step (TypeFirst v) w = guarded (view w = P2 \<and> \<not> rewardOn w) (w\<lparr> p2First := v \<rparr>)"
| "step SubmitFirst w = guarded (view w = P2 \<and> \<not> rewardOn w) (submitFirstFromP2 w)"
| "step (TypeLast v) w = guarded (view w = P3 \<and> \<not> rewardOn w) (w\<lparr> lastName := v \<rparr>)"
| "step SubmitLast w = guarded (view w = P3 \<and> \<not> rewardOn w) (submitLast w)"
| "step ClickContinue w = guarded (view w = P4 \<and> \<not> rewardOn w) (continueFromAwakening w)"
| "step (TypeEmail v) w =
     guarded (view w = P5 \<and> p5Stage w = Email \<and> \<not> rewardOn w \<and> sendState w \<noteq> Sending)
       (emailOnChange v w)"
| "step (SubmitEmail br ds) w =
     guarded (view w = P5 \<and> p5Stage w = Email \<and> \<not> rewardOn w \<and> sendState w \<noteq> Sending
              \<and> validDraws ds)
       (submitEmailFromP5 br ds w)"
| "step (CrmSettles i oc) w =
     guarded (i < length (inFlight w))
       (settleEmail oc (w\<lparr> inFlight := take i (inFlight w) @ drop (Suc i) (inFlight w) \<rparr>))"
| "step (TypeCode v) w =
     guarded (view w = P5 \<and> p5Stage w = Code \<and> \<not> rewardOn w) (w\<lparr> codeInput := v \<rparr>)"
| "step SubmitCode w =
     guarded (view w = P5 \<and> p5Stage w = Code \<and> \<not> rewardOn w) (submitCode w)"
| "step BackToStart w = guarded (view w = Info) (goTo Landing w)"
| "step (TimeoutFires i) w =
     (case find (\<lambda>t. tid t = i) (timeouts w) of
        None \<Rightarrow> None
      | Some t \<Rightarrow>
          Some (rewardTimeout (after t) (w\<lparr> timeouts := filter (\<lambda>t. tid t \<noteq> i) (timeouts w) \<rparr>)))"

fun run :: "Event list \<Rightarrow> Wizard \<Rightarrow> Wizard option" where
  "run [] w = Some w"
| "run (e # es) w = (case step e w of None \<Rightarrow> None | Some w' \<Rightarrow> run es w')"

inductive reachable :: "Wizard \<Rightarrow> bool" where
  reach_initial: "reachable initial"
| reach_step: "reachable w \<Longrightarrow> step e w = Some w' \<Longrightarrow> reachable w'"





text \<open>The invariant of the sessions that can arise.\<close>

fun pendingOk :: "After \<Rightarrow> Wizard \<Rightarrow> bool" where
  "pendingOk (GoTo v) w = ((v = P3 \<and> view w = P2) \<or> (v = P4 \<and> view w = P3))"
| "pendingOk EnterCode w =
     (view w = P5 \<and> p5Stage w = Email \<and> sendState w = Sent \<and> accessCode w \<noteq> [])"

definition timersTracked :: "Wizard \<Rightarrow> bool" where
  "timersTracked w =
     (length (timeouts w) \<le> 1
      \<and> (timeouts w = [] \<longrightarrow> rewardTimerRef w = None \<and> \<not> rewardOn w)
      \<and> list_all (\<lambda>t. tid t \<noteq> 0 \<and> rewardTimerRef w = Some (tid t) \<and> rewardOn w
                       \<and> pendingOk (after t) w) (timeouts w))"

definition genCode :: "string \<Rightarrow> bool" where
  "genCode c = (length c = 8 \<and> list_all (\<lambda>x. x \<in> set chars) c)"

definition flightOk :: "Wizard \<Rightarrow> bool" where
  "flightOk w =
     (length (inFlight w) \<le> 1
      \<and> (inFlight w \<noteq> [] \<longrightarrow>
           view w = P5 \<and> p5Stage w = Email \<and> sendState w = Sending \<and> \<not> rewardOn w
           \<and> accessCode w \<noteq> []))"

definition codeOk :: "Wizard \<Rightarrow> bool" where
  "codeOk w =
     ((accessCode w = '''' \<or> genCode (accessCode w))
      \<and> (p5Stage w = Code \<longrightarrow> accessCode w \<noteq> ''''))"

definition sessionInv :: "Wizard \<Rightarrow> bool" where
  "sessionInv w = (timersTracked w \<and> flightOk w \<and> codeOk w)"

section \<open>The relay: what a handler is given and what it answers\<close>

text \<open>
  The repository holds seven versions of the handler of \<open>/api/applications\<close>. Each is a
  function of the process environment, the request, and the platform it calls:
  \<open>JSON.parse\<close> (\<open>Inl\<close> is the message of the error it throws), \<open>JSON.stringify\<close>, and
  \<open>fetch\<close> together with the read of the response body (\<open>Inl\<close> is the error thrown by
  either, both stand in the same \<open>try\<close>). The outcome lists the calls made to \<open>fetch\<close>
  and the response written to \<open>res\<close>.
\<close>

record Env =
  REPLIT_CRM_BASE_URL :: "string option"
  REPLIT_NP_API_KEY :: "string option"
  CRM_RELAY_DEBUG :: "string option"

text \<open>What the body stream emits before its \<open>end\<close>: \<open>data\<close> chunks or an \<open>error\<close>.\<close>

datatype BodyEvent = Chunk string | StreamFails string

text \<open>
  \<open>reqBody\<close> is \<open>req.body\<close> as the platform provides it: \<open>None\<close> is \<open>undefined\<close>, a
  text is \<open>JStr\<close>, a body the platform parsed is its value.
\<close>

record Request =
  reqMethod :: string
  reqBody :: "json option"
  reqStream :: "BodyEvent list"

record JsError =
  errName :: string
  errMessage :: string
  errStack :: "string option"

record Upstream =
  upStatus :: nat
  upContentType :: "string option"
  upText :: string

record Outbound =
  url :: string
  outMethod :: string
  outHeaders :: "(string \<times> string) list"
  outBody :: "string option"

record Platform =
  jsonParse :: "string \<Rightarrow> string + json"
  jsonStringify :: "json \<Rightarrow> string"
  fetch :: "Outbound \<Rightarrow> JsError + Upstream"

text \<open>\<open>resBody = None\<close> is a response ended without a body (\<open>res.status(n).end()\<close>).\<close>

record Response =
  status :: nat
  resHeaders :: "(string \<times> string) list"
  resBody :: "json option"

record Outcome =
  calls :: "Outbound list"
  reply :: Response

definition jsonReply :: "(string \<times> string) list \<Rightarrow> nat \<Rightarrow> (string \<times> json) list \<Rightarrow> Response" where
  "jsonReply hs st kv = \<lparr> status = st, resHeaders = hs, resBody = Some (JObj kv) \<rparr>"

definition endReply :: "(string \<times> string) list \<Rightarrow> nat \<Rightarrow> Response" where
  "endReply hs st = \<lparr> status = st, resHeaders = hs, resBody = None \<rparr>"

definition noCall :: "Response \<Rightarrow> Outcome" where
  "noCall r = \<lparr> calls = [], reply = r \<rparr>"

definition afterCall :: "Outbound \<Rightarrow> Response \<Rightarrow> Outcome" where
  "afterCall c r = \<lparr> calls = [c], reply = r \<rparr>"

text \<open>\<open>!v\<close> and \<open>v || ""\<close> for an environment variable.\<close>

definition falsy :: "string option \<Rightarrow> bool" where
  "falsy v = (v = None \<or> v = Some [])"

definition orEmpty :: "string option \<Rightarrow> string" where
  "orEmpty v = (case v of None \<Rightarrow> [] | Some s \<Rightarrow> s)"

text \<open>\<open>String(process.env.CRM_RELAY_DEBUG || "").toLowerCase() === "true"\<close>.\<close>

definition debugFlag :: "Env \<Rightarrow> bool" where
  "debugFlag env = (toLowerCase (orEmpty (CRM_RELAY_DEBUG env)) = ''true'')"

text \<open>\<open>s.replace(/\/$/, "")\<close> and \<open>s.replace(/\/+$/, "")\<close>.\<close>

definition stripSlash :: "string \<Rightarrow> string" where
  "stripSlash s = (if s \<noteq> [] \<and> last s = CHR ''/'' then butlast s else s)"

definition stripSlashes :: "string \<Rightarrow> string" where
  "stripSlashes s = rev (dropWhile (\<lambda>c. c = CHR ''/'') (rev s))"

text \<open>\<open>upstream.ok\<close>.\<close>

definition upOk :: "Upstream \<Rightarrow> bool" where
  "upOk u = (200 \<le> upStatus u \<and> upStatus u \<le> 299)"

text \<open>\<open>try { parsed = JSON.parse(text) } catch { parsed = { raw: text } }\<close>.\<close>

definition parseOrRaw :: "Platform \<Rightarrow> string \<Rightarrow> json" where
  "parseOrRaw pf text =
     (case jsonParse pf text of Inr v \<Rightarrow> v | Inl m \<Rightarrow> JObj [(''raw'', JStr text)])"

text \<open>\<open>e?.message || d\<close> and \<open>String(err)\<close> for an error object.\<close>

definition messageOr :: "JsError \<Rightarrow> string \<Rightarrow> string" where
  "messageOr e d = (if errMessage e \<noteq> [] then errMessage e else d)"

definition errToString :: "JsError \<Rightarrow> string" where
  "errToString e =
     (if errName e = [] then errMessage e
      else if errMessage e = [] then errName e
      else errName e @ '': '' @ errMessage e)"

fun truthy :: "json \<Rightarrow> bool" where
  "truthy JNull = False"
| "truthy (JBool b) = b"
| "truthy (JNum n) = (n \<noteq> 0)"
| "truthy (JStr s) = (s \<noteq> [])"
| "truthy (JArr xs) = True"
| "truthy (JObj kv) = True"

text \<open>
  \<open>p && typeof p === "object" && p.applicant\<close>, read as a condition: a truthy value of
  type object is an array or a keyed record, and only a record has the property.
\<close>

definition hasApplicant :: "json option \<Rightarrow> bool" where
  "hasApplicant p =
     (case p of
        Some (JObj kv) \<Rightarrow> (case map_of kv ''applicant'' of None \<Rightarrow> False | Some a \<Rightarrow> truthy a)
      | _ \<Rightarrow> False)"

text \<open>A key is written only where its value is not \<open>undefined\<close>.\<close>

definition optKey :: "string \<Rightarrow> json option \<Rightarrow> (string \<times> json) list" where
  "optKey k v = (case v of None \<Rightarrow> [] | Some x \<Rightarrow> [(k, x)])"

definition whenOn :: "bool \<Rightarrow> (string \<times> json) list \<Rightarrow> (string \<times> json) list" where
  "whenOn d kv = (if d then kv else [])"

definition quoted :: "string \<Rightarrow> string" where
  "quoted s = [CHR 0x27] @ s @ [CHR 0x27]"

section \<open>The relay: \<open>unnamed/part_000\<close>\<close>

fun readRawBody :: "BodyEvent list \<Rightarrow> string \<Rightarrow> string + string" where
  "readRawBody [] data = Inr data"
| "readRawBody (Chunk chunk # es) data =
     (if length (data @ chunk) > 1000000 then Inl ''Payload too large''
      else readRawBody es (data @ chunk))"
| "readRawBody (StreamFails msg # es) data = Inl msg"

definition safeJsonParse :: "Platform \<Rightarrow> string \<Rightarrow> string + json" where
  "safeJsonParse pf s =
     (case jsonParse pf s of
        Inr v \<Rightarrow> Inr v
      | Inl m \<Rightarrow> Inl (if m \<noteq> [] then m else ''Invalid JSON''))"

definition cors000 :: "(string \<times> string) list" where
  "cors000 =
     [(''Access-Control-Allow-Origin'', ''*''),
      (''Access-Control-Allow-Methods'', ''POST, OPTIONS''),
      (''Access-Control-Allow-Headers'', ''Content-Type, X-API-Key'')]"

definition handler_part000 :: "Platform \<Rightarrow> Env \<Rightarrow> Request \<Rightarrow> Outcome" where
  "handler_part000 pf env rq =
     (if reqMethod rq = ''OPTIONS'' then noCall (endReply cors000 200)
      else if reqMethod rq \<noteq> ''POST'' then
        noCall (jsonReply cors000 405 [(''ok'', JBool False), (''error'', JStr ''Method not allowed'')])
      else
        let baseUrl = REPLIT_CRM_BASE_URL env;
            apiKey = REPLIT_NP_API_KEY env;
            debug = debugFlag env
        in if falsy baseUrl \<or> falsy apiKey then
             noCall (jsonReply cors000 500
               [(''ok'', JBool False),
                (''error'', JStr ''Missing REPLIT_CRM_BASE_URL or REPLIT_NP_API_KEY''),
                (''missing'', JObj [(''REPLIT_CRM_BASE_URL'', JBool (falsy baseUrl)),
                                    (''REPLIT_NP_API_KEY'', JBool (falsy apiKey))])])
           else
             (case readRawBody (reqStream rq) [] of
                Inl m \<Rightarrow>
                  noCall (jsonReply cors000 400
                    [(''ok'', JBool False),
                     (''error'', JStr (if m \<noteq> [] then m else ''Failed reading body''))])
              | Inr raw \<Rightarrow>
                  if raw = [] \<or> trim raw = [] then
                    noCall (jsonReply cors000 400
                      [(''ok'', JBool False),
                       (''error'', JStr ''Empty request body received by relay''),
                       (''hint'', JStr ''Your frontend must POST JSON to /api/applications'')])
                  else
                    (case safeJsonParse pf raw of
                       Inl detail \<Rightarrow>
                         noCall (jsonReply cors000 400
                           [(''ok'', JBool False),
                            (''error'', JStr ''Invalid JSON body''),
                            (''detail'', JStr detail),
                            (''rawPreview'', JStr (sliceTo raw 500))])
                     | Inr payload \<Rightarrow>
                         let upstreamUrl = stripSlash (orEmpty baseUrl) @ ''/api/applications'';
                             c = \<lparr> url = upstreamUrl, outMethod = ''POST'',
                                   outHeaders = [(''Content-Type'', ''application/json''),
                                                 (''X-API-Key'', orEmpty apiKey)],
                                   outBody = Some (jsonStringify pf payload) \<rparr>
                         in (case fetch pf c of
                               Inl e \<Rightarrow>
                                 afterCall c (jsonReply cors000 500
                                   [(''ok'', JBool False),
                                    (''error'', JStr (messageOr e ''Unexpected relay error''))])
                             | Inr upstream \<Rightarrow>
                                 let upstreamBody = parseOrRaw pf (upText upstream)
                                 in if \<not> upOk upstream then
                                      afterCall c (jsonReply cors000 502
                                        ([(''ok'', JBool False),
                                          (''message'', JStr ''Upstream CRM returned non-OK response''),
                                          (''upstreamStatus'', JNum (int (upStatus upstream))),
                                          (''upstreamBody'', upstreamBody)]
                                         @ whenOn debug [(''upstreamUrl'', JStr upstreamUrl)]))
                                    else
                                      afterCall c (jsonReply cors000 200
                                        ([(''ok'', JBool True),
                                          (''upstream'', upstreamBody)]
                                         @ whenOn debug [(''upstreamUrl'', JStr upstreamUrl)]))))))"

section \<open>The relay: \<open>unnamed/part_002\<close>\<close>

definition handler_part002 :: "Platform \<Rightarrow> Env \<Rightarrow> Request \<Rightarrow> Outcome" where
  "handler_part002 pf env rq =
     (if reqMethod rq \<noteq> ''POST'' then
        noCall (jsonReply [] 405 [(''ok'', JBool False), (''error'', JStr ''Method not allowed'')])
      else
        let baseUrl = REPLIT_CRM_BASE_URL env;
            apiKey = REPLIT_NP_API_KEY env
        in if falsy baseUrl \<or> falsy apiKey then
             noCall (jsonReply [] 500
               [(''ok'', JBool False),
                (''error'', JStr ''Missing REPLIT_CRM_BASE_URL or REPLIT_NP_API_KEY'')])
           else
             let c = \<lparr> url = stripSlash (orEmpty baseUrl) @ ''/api/applications'',
                       outMethod = ''POST'',
                       outHeaders = [(''Content-Type'', ''application/json''),
                                     (''X-API-Key'', orEmpty apiKey)],
                       outBody = map_option (jsonStringify pf) (reqBody rq) \<rparr>
             in (case fetch pf c of
                   Inl e \<Rightarrow>
                     afterCall c (jsonReply [] 500
                       [(''ok'', JBool False), (''error'', JStr (messageOr e ''Unexpected error''))])
                 | Inr upstream \<Rightarrow>
                     let parsed = parseOrRaw pf (upText upstream)
                     in if \<not> upOk upstream then
                          afterCall c (jsonReply [] 502
                            [(''ok'', JBool False),
                             (''upstreamStatus'', JNum (int (upStatus upstream))),
                             (''upstreamBody'', parsed)])
                        else
                          afterCall c (jsonReply [] 200
                            [(''ok'', JBool True), (''upstream'', parsed)])))"

section \<open>The relay: \<open>unnamed/part_003\<close>, second handler, and \<open>App.tsx\<close>, last handler\<close>

text \<open>
  The two differ in the headers they send: the one of \<open>part_003\<close> sends the key under
  \<open>X-API-Key\<close> and under \<open>X-API-KEY\<close>, the one of \<open>App.tsx\<close> under \<open>X-API-Key\<close> alone
  (its comment: send only one API key header).
\<close>

definition safeDebug :: "Env \<Rightarrow> json option" where
  "safeDebug env =
     (let baseUrl = REPLIT_CRM_BASE_URL env; apiKey = REPLIT_NP_API_KEY env
      in if CRM_RELAY_DEBUG env = Some ''true'' then
           Some (JObj
             [(''hasBaseUrl'', JBool (\<not> falsy baseUrl)),
              (''hasApiKey'', JBool (\<not> falsy apiKey)),
              (''apiKeyLen'', JNum (if falsy apiKey then 0 else int (length (orEmpty apiKey)))),
              (''apiKeyLast4'', JStr (if falsy apiKey then [] else sliceLast (orEmpty apiKey) 4)),
              (''apiKeyPrefix8'', JStr (if falsy apiKey then [] else sliceTo (orEmpty apiKey) 8))])
         else None)"

definition relayWithKeyHeaders ::
  "(string \<Rightarrow> (string \<times> string) list) \<Rightarrow> Platform \<Rightarrow> Env \<Rightarrow> Request \<Rightarrow> Outcome" where
  "relayWithKeyHeaders keyHeaders pf env rq =
     (if reqMethod rq \<noteq> ''POST'' then
        noCall (jsonReply [] 405 [(''ok'', JBool False), (''error'', JStr ''Method not allowed'')])
      else
        let baseUrl = REPLIT_CRM_BASE_URL env;
            apiKey = REPLIT_NP_API_KEY env
        in if falsy baseUrl \<or> falsy apiKey then
             noCall (jsonReply [] 500
               ([(''ok'', JBool False),
                 (''error'', JStr ''Missing REPLIT_CRM_BASE_URL or REPLIT_NP_API_KEY'')]
                @ optKey ''debug'' (safeDebug env)))
           else
             let upstreamUrl = stripSlash (orEmpty baseUrl) @ ''/api/applications'';
                 c = \<lparr> url = upstreamUrl, outMethod = ''POST'',
                       outHeaders = (''Content-Type'', ''application/json'') # keyHeaders (orEmpty apiKey),
                       outBody = map_option (jsonStringify pf) (reqBody rq) \<rparr>
             in (case fetch pf c of
                   Inl e \<Rightarrow>
                     afterCall c (jsonReply [] 500
                       ([(''ok'', JBool False), (''error'', JStr (messageOr e ''Unexpected error''))]
                        @ optKey ''debug'' (safeDebug env)))
                 | Inr upstream \<Rightarrow>
                     let parsed = parseOrRaw pf (upText upstream)
                     in if \<not> upOk upstream then
                          afterCall c (jsonReply [] 502
                            ([(''ok'', JBool False),
                              (''message'', JStr ''Upstream CRM returned non-OK response''),
                              (''upstreamStatus'', JNum (int (upStatus upstream))),
                              (''upstreamBody'', parsed),
                              (''upstreamUrl'', JStr upstreamUrl)]
                             @ optKey ''debug'' (safeDebug env)))
                        else
                          afterCall c (jsonReply [] 200
                            ([(''ok'', JBool True), (''upstream'', parsed)]
                             @ optKey ''debug'' (safeDebug env)))))"

definition handler_part003b :: "Platform \<Rightarrow> Env \<Rightarrow> Request \<Rightarrow> Outcome" where
  "handler_part003b =
     relayWithKeyHeaders (\<lambda>apiKey. [(''X-API-Key'', apiKey), (''X-API-KEY'', apiKey)])"

definition handler_App1662 :: "Platform \<Rightarrow> Env \<Rightarrow> Request \<Rightarrow> Outcome" where
  "handler_App1662 = relayWithKeyHeaders (\<lambda>apiKey. [(''X-API-Key'', apiKey)])"

section \<open>The relay: \<open>App.tsx\<close>, first handler\<close>

definition handler_App1590 :: "Platform \<Rightarrow> Env \<Rightarrow> Request \<Rightarrow> Outcome" where
  "handler_App1590 pf env rq =
     (if reqMethod rq \<noteq> ''POST'' then
        noCall (jsonReply [] 405 [(''ok'', JBool False), (''error'', JStr ''Method not allowed'')])
      else
        let baseUrl = REPLIT_CRM_BASE_URL env;
            apiKey = REPLIT_NP_API_KEY env;
            debug = debugFlag env
        in if falsy baseUrl \<or> falsy apiKey then
             noCall (jsonReply [] 500
               ([(''ok'', JBool False),
                 (''error'', JStr ''Missing REPLIT_CRM_BASE_URL or REPLIT_NP_API_KEY'')]
                @ whenOn debug
                    [(''debug'', JObj [(''hasBaseUrl'', JBool (\<not> falsy baseUrl)),
                                       (''hasApiKey'', JBool (\<not> falsy apiKey))])]))
           else
             let body = (case reqBody rq of
                           Some (JStr s) \<Rightarrow>
                             (case jsonParse pf s of Inr v \<Rightarrow> Some v | Inl m \<Rightarrow> Some (JStr s))
                         | b \<Rightarrow> b);
                 upstreamUrl = stripSlash (orEmpty baseUrl) @ ''/api/applications'';
                 c = \<lparr> url = upstreamUrl, outMethod = ''POST'',
                       outHeaders = [(''Content-Type'', ''application/json''),
                                     (''X-API-Key'', orEmpty apiKey)],
                       outBody = Some (jsonStringify pf
                                   (case body of None \<Rightarrow> JObj [] | Some JNull \<Rightarrow> JObj []
                                    | Some v \<Rightarrow> v)) \<rparr>
             in (case fetch pf c of
                   Inl e \<Rightarrow>
                     afterCall c (jsonReply [] 500
                       ([(''ok'', JBool False), (''error'', JStr (messageOr e ''Unexpected error''))]
                        @ whenOn debug
                            [(''debug'', JObj (optKey ''stack'' (map_option JStr (errStack e))))]))
                 | Inr upstream \<Rightarrow>
                     let parsed = parseOrRaw pf (upText upstream)
                     in if \<not> upOk upstream then
                          afterCall c (jsonReply [] 502
                            ([(''ok'', JBool False),
                              (''upstreamStatus'', JNum (int (upStatus upstream))),
                              (''upstreamBody'', parsed)]
                             @ whenOn debug [(''debug'', JObj [(''upstreamUrl'', JStr upstreamUrl)])]))
                        else
                          afterCall c (jsonReply [] 200
                            ([(''ok'', JBool True), (''upstream'', parsed)]
                             @ whenOn debug [(''debug'', JObj [(''upstreamUrl'', JStr upstreamUrl)])]))))"

section \<open>The relay: \<open>unnamed/part_001\<close> and \<open>unnamed/part_003\<close>, first handler\<close>

text \<open>
  The two differ in the hint of the configuration error and in the upstream body of a
  rejection reported with debug off: \<open>part_003\<close> cuts a text to 500 units, \<open>part_001\<close>
  reports it whole.
\<close>

definition cors001 :: "(string \<times> string) list" where
  "cors001 =
     [(''Access-Control-Allow-Origin'', ''*''),
      (''Access-Control-Allow-Methods'', ''POST, OPTIONS''),
      (''Access-Control-Allow-Headers'', ''Content-Type'')]"

text \<open>
  \<open>contentType.includes("application/json") ? await upstream.json() : await upstream.text()\<close>;
  \<open>Inl\<close> is the message of the error \<open>json()\<close> throws on a body that does not parse.
\<close>

definition readByContentType :: "Platform \<Rightarrow> Upstream \<Rightarrow> string + json" where
  "readByContentType pf upstream =
     (if strIncludes (orEmpty (upContentType upstream)) ''application/json''
      then jsonParse pf (upText upstream)
      else Inr (JStr (upText upstream)))"

definition cutText :: "json \<Rightarrow> json" where
  "cutText b = (case b of JStr s \<Rightarrow> JStr (sliceTo s 500) | _ \<Rightarrow> b)"

definition strictRelay ::
  "string \<Rightarrow> (json \<Rightarrow> json) \<Rightarrow> Platform \<Rightarrow> Env \<Rightarrow> Request \<Rightarrow> Outcome" where
  "strictRelay hint preview pf env rq =
     (let DEBUG = debugFlag env
      in if reqMethod rq = ''OPTIONS'' then noCall (endReply cors001 204)
         else if reqMethod rq \<noteq> ''POST'' then
           noCall (jsonReply cors001 405
             [(''ok'', JBool False), (''error'', JStr ''Method Not Allowed''),
              (''allowed'', JArr [JStr ''POST''])])
         else
           let baseUrl = trim (orEmpty (REPLIT_CRM_BASE_URL env));
               apiKey = trim (orEmpty (REPLIT_NP_API_KEY env))
           in if baseUrl = [] \<or> apiKey = [] then
                noCall (jsonReply cors001 500
                  ([(''ok'', JBool False),
                    (''error'', JStr ''Missing required environment variables''),
                    (''missing'', JObj [(''REPLIT_CRM_BASE_URL'', JBool (baseUrl = [])),
                                        (''REPLIT_NP_API_KEY'', JBool (apiKey = []))])]
                   @ whenOn DEBUG [(''hint'', JStr hint)]))
              else
                let targetUrl = stripSlashes baseUrl @ ''/api/applications''
                in (case (case reqBody rq of
                            Some (JStr s) \<Rightarrow>
                              (case jsonParse pf s of Inr v \<Rightarrow> Inr (Some v) | Inl m \<Rightarrow> Inl m)
                          | b \<Rightarrow> Inr b) of
                      Inl m \<Rightarrow>
                        noCall (jsonReply cors001 400
                          ([(''ok'', JBool False), (''error'', JStr ''Invalid JSON payload'')]
                           @ whenOn DEBUG
                               ([(''receivedType'', JStr ''string'')]
                                @ optKey ''receivedBody'' (reqBody rq))))
                    | Inr incomingPayload \<Rightarrow>
                        if \<not> hasApplicant incomingPayload then
                          noCall (jsonReply cors001 400
                            ([(''ok'', JBool False),
                              (''error'', JStr (''Payload missing required '' @ quoted ''applicant''
                                               @ '' object''))]
                             @ whenOn DEBUG (optKey ''receivedPayload'' incomingPayload)))
                        else
                          let c = \<lparr> url = targetUrl, outMethod = ''POST'',
                                    outHeaders = [(''Content-Type'', ''application/json''),
                                                  (''X-API-Key'', apiKey)],
                                    outBody = map_option (jsonStringify pf) incomingPayload \<rparr>;
                              failed = (\<lambda>e. afterCall c (jsonReply cors001 500
                                  ([(''ok'', JBool False),
                                    (''error'', JStr ''Relay failed (network/runtime error)'')]
                                   @ whenOn DEBUG [(''details'', JStr (errToString e)),
                                                   (''targetUrl'', JStr targetUrl)])))
                          in (case fetch pf c of
                                Inl e \<Rightarrow> failed e
                              | Inr upstream \<Rightarrow>
                                  (case readByContentType pf upstream of
                                     Inl m \<Rightarrow>
                                       failed \<lparr> errName = ''SyntaxError'', errMessage = m,
                                                errStack = None \<rparr>
                                   | Inr upstreamBody \<Rightarrow>
                                       if \<not> upOk upstream then
                                         afterCall c (jsonReply cors001 (upStatus upstream)
                                           ([(''ok'', JBool False),
                                             (''error'', JStr ''Upstream CRM rejected the request''),
                                             (''status'', JNum (int (upStatus upstream)))]
                                            @ (if DEBUG
                                               then [(''targetUrl'', JStr targetUrl),
                                                     (''upstreamBody'', upstreamBody)]
                                                    @ optKey ''sentPayload'' incomingPayload
                                               else [(''upstreamBody'', preview upstreamBody)])))
                                       else
                                         afterCall c (jsonReply cors001 200
                                           ([(''ok'', JBool True),
                                             (''message'', JStr ''Relayed to CRM successfully'')]
                                            @ whenOn DEBUG [(''targetUrl'', JStr targetUrl),
                                                            (''upstreamBody'', upstreamBody)]))))))"

text \<open>The hints, their arrows written in ASCII.\<close>

definition handler_part001 :: "Platform \<Rightarrow> Env \<Rightarrow> Request \<Rightarrow> Outcome" where
  "handler_part001 =
     strictRelay
       ''Set env vars in Vercel -> Settings -> Environment Variables, then redeploy.''
       (\<lambda>b. b)"

definition handler_part003a :: "Platform \<Rightarrow> Env \<Rightarrow> Request \<Rightarrow> Outcome" where
  "handler_part003a =
     strictRelay
       ''Set env vars in Vercel -> Project -> Settings -> Environment Variables, then redeploy.''
       cutText"

section \<open>The relay: the seven handlers side by side\<close>

datatype Variant = Part000 | Part001 | Part002 | Part003a | Part003b | App1590 | App1662

fun handler :: "Variant \<Rightarrow> Platform \<Rightarrow> Env \<Rightarrow> Request \<Rightarrow> Outcome" where
  "handler Part000 = handler_part000"
| "handler Part001 = handler_part001"
| "handler Part002 = handler_part002"
| "handler Part003a = handler_part003a"
| "handler Part003b = handler_part003b"
| "handler App1590 = handler_App1590"
| "handler App1662 = handler_App1662"

text \<open>Which handlers answer \<open>OPTIONS\<close> themselves, and with which status and headers.\<close>

fun answersOptions :: "Variant \<Rightarrow> bool" where
  "answersOptions Part000 = True"
| "answersOptions Part001 = True"
| "answersOptions Part003a = True"
| "answersOptions v = False"

fun optionsStatus :: "Variant \<Rightarrow> nat" where
  "optionsStatus Part000 = 200"
| "optionsStatus v = 204"

fun corsHeaders :: "Variant \<Rightarrow> (string \<times> string) list" where
  "corsHeaders Part000 = cors000"
| "corsHeaders Part001 = cors001"
| "corsHeaders Part003a = cors001"
| "corsHeaders v = []"

text \<open>
  Which handlers read the upstream body as text and try \<open>JSON.parse\<close> on it (the others,
  \<open>part_001\<close> and the first of \<open>part_003\<close>, go by the content type), and which report a
  preview of the key when \<open>CRM_RELAY_DEBUG\<close> is \<open>"true"\<close>.
\<close>

fun readsText :: "Variant \<Rightarrow> bool" where
  "readsText Part001 = False"
| "readsText Part003a = False"
| "readsText v = True"

fun previewsKey :: "Variant \<Rightarrow> bool" where
  "previewsKey Part003b = True"
| "previewsKey App1662 = True"
| "previewsKey v = False"

text \<open>
  When a handler takes a configuration value for missing: \<open>part_001\<close> and the first of
  \<open>part_003\<close> trim it first. And which handlers list the missing values by name.
\<close>

fun absent :: "Variant \<Rightarrow> string option \<Rightarrow> bool" where
  "absent Part001 x = (trim (orEmpty x) = [])"
| "absent Part003a x = (trim (orEmpty x) = [])"
| "absent v x = falsy x"

fun listsMissing :: "Variant \<Rightarrow> bool" where
  "listsMissing Part000 = True"
| "listsMissing Part001 = True"
| "listsMissing Part003a = True"
| "listsMissing v = False"

text \<open>Reading a property of the response object.\<close>

definition field :: "string \<Rightarrow> Response \<Rightarrow> json option" where
  "field k r = (case resBody r of Some (JObj kv) \<Rightarrow> map_of kv k | _ \<Rightarrow> None)"

text \<open>
  The specification's terms. The credential headers of a call are the headers named
  \<open>X-API-Key\<close> in any case. A response includes the upstream's answer when one of its
  properties is the upstream status and one is the upstream body, as the parsed JSON value,
  else wrapped as raw text, or as the text itself.
\<close>

definition credentialCount :: "Outbound \<Rightarrow> nat" where
  "credentialCount c = length (filter (\<lambda>(k, v). toLowerCase k = ''x-api-key'') (outHeaders c))"

definition includesUpstream :: "Platform \<Rightarrow> Upstream \<Rightarrow> Response \<Rightarrow> bool" where
  "includesUpstream pf up r =
     (case resBody r of
        Some (JObj kv) \<Rightarrow>
          JNum (int (upStatus up)) \<in> set (map snd kv)
          \<and> (parseOrRaw pf (upText up) \<in> set (map snd kv)
             \<or> JStr (upText up) \<in> set (map snd kv))
      | _ \<Rightarrow> False)"

section \<open>Predicates of the specification and sample sessions\<close>

text \<open>
  The specification's reading of the applicant record: every field outside the collected
  ones holds the empty string or zero.
\<close>

definition uncollectedDefaulted :: "string list \<Rightarrow> (string \<times> json) list \<Rightarrow> bool" where
  "uncollectedDefaulted collected a =
     list_all (\<lambda>(k, v). k \<in> set collected \<or> v = JStr [] \<or> v = JNum 0) a"

definition demoBrowser :: Browser where
  "demoBrowser = \<lparr> newRequestId = ''req_1'', nowIso = ''2024-01-01T00:00:00.000Z'',
     userAgent = Some ''UA'', pageUrl = Some ''https://balancecipher.info/'',
     referrer = Some [] \<rparr>"

definition demoPayload :: CrmCanonPayload where
  "demoPayload = buildCanonPayload demoBrowser ''Ann'' ''Lee'' ''ann@example.com'' ''ABCDEFGH''"

text \<open>A session up to the first reward overlay, with its timeout pending.\<close>

definition toReward :: "Event list" where
  "toReward = [ClickStart, TypeFirst ''Ann'', SubmitFirst]"

definition rewardState :: Wizard where
  "rewardState = initial\<lparr> view := P2, firstName := ''Ann'', p2First := ''Ann'',
     rewardOn := True, rewardLetter := Some LetterB, rewardTimerRef := Some 1,
     timeouts := [Timeout 1 950 (GoTo P3)], timeoutSeq := 1 \<rparr>"

text \<open>The session continued until the email is submitted and the post is in flight.\<close>

definition toEmailSent :: "Event list" where
  "toEmailSent = toReward @ [TimeoutFires 1, TypeLast ''Lee'', SubmitLast, TimeoutFires 2,
     ClickContinue, TypeEmail ''ann@example.com'',
     SubmitEmail demoBrowser [0, 1, 2, 3, 4, 5, 6, 7]]"

definition inFlightState :: Wizard where
  "inFlightState = initial\<lparr> view := P5, firstName := ''Ann'', lastName := ''Lee'',
     email := ''ann@example.com'', accessCode := ''ABCDEFGH'', p2First := ''Ann'',
     sendState := Sending, sendMsg := ''Sending your map delivery request...'',
     timeoutSeq := 2, posted := [demoPayload], inFlight := [demoPayload] \<rparr>"

text \<open>On to the code gate, with the code typed in lower case between blanks.\<close>

definition toCodeGate :: "Event list" where
  "toCodeGate = toEmailSent @ [CrmSettles 0 (CrmResult None), TimeoutFires 3,
     TypeCode '' abcdefgh '']"

definition atCodeGate :: Wizard where
  "atCodeGate = initial\<lparr> view := P5, firstName := ''Ann'', lastName := ''Lee'',
     email := ''ann@example.com'', accessCode := ''ABCDEFGH'', codeInput := '' abcdefgh '',
     p2First := ''Ann'', p5Stage := Code, sendState := Sent, sendMsg := ''Request sent.'',
     timeoutSeq := 3, posted := [demoPayload] \<rparr>"

text \<open>And through the gate to the final screen.\<close>

definition toInfo :: "Event list" where
  "toInfo = toCodeGate @ [SubmitCode]"

definition atInfo :: Wizard where
  "atInfo = atCodeGate\<lparr> view := Info \<rparr>"




text \<open>A code gate whose stored access code is empty.\<close>

definition emptyCodeState :: Wizard where
  "emptyCodeState = initial\<lparr> view := P5, p5Stage := Code, codeInput := ''x'' \<rparr>"

section \<open>Sample requests and platforms\<close>

text \<open>The text \<open>{"error":"bad key"}\<close>.\<close>

definition badKeyText :: string where
  "badKeyText = ''{'' @ [CHR 0x22] @ ''error'' @ [CHR 0x22] @ '':'' @ [CHR 0x22] @ ''bad key''
     @ [CHR 0x22] @ ''}''"

text \<open>
  A stand-in for the platform: a parser that knows two texts, a serialiser that knows
  texts and the empty record, and an upstream that gives every call the same answer.
\<close>

definition demoParse :: "string \<Rightarrow> string + json" where
  "demoParse s =
     (if s = badKeyText then Inr (JObj [(''error'', JStr ''bad key'')])
      else if s = ''{}'' then Inr (JObj [])
      else Inl ''Unexpected token'')"

definition demoStringify :: "json \<Rightarrow> string" where
  "demoStringify j =
     (case j of JStr s \<Rightarrow> [CHR 0x22] @ s @ [CHR 0x22] | JObj [] \<Rightarrow> ''{}'' | _ \<Rightarrow> ''{...}'')"

definition demoPlatform :: "Upstream \<Rightarrow> Platform" where
  "demoPlatform up =
     \<lparr> jsonParse = demoParse, jsonStringify = demoStringify, fetch = (\<lambda>c. Inr up) \<rparr>"

definition badKey403 :: Upstream where
  "badKey403 = \<lparr> upStatus = 403, upContentType = Some ''application/json'', upText = badKeyText \<rparr>"

definition longText500 :: Upstream where
  "longText500 = \<lparr> upStatus = 500, upContentType = Some ''text/plain'',
     upText = replicate 501 (CHR ''x'') \<rparr>"

definition created201 :: Upstream where
  "created201 = \<lparr> upStatus = 201, upContentType = Some ''application/json'', upText = ''{}'' \<rparr>"

definition demoEnv :: Env where
  "demoEnv = \<lparr> REPLIT_CRM_BASE_URL = Some ''https://crm.example.com/'',
     REPLIT_NP_API_KEY = Some ''secret-key-0001'', CRM_RELAY_DEBUG = None \<rparr>"

definition emptyEnv :: Env where
  "emptyEnv = \<lparr> REPLIT_CRM_BASE_URL = None, REPLIT_NP_API_KEY = None, CRM_RELAY_DEBUG = None \<rparr>"

definition shortKeyEnv :: Env where
  "shortKeyEnv = \<lparr> REPLIT_CRM_BASE_URL = None, REPLIT_NP_API_KEY = Some ''abcd1234'',
     CRM_RELAY_DEBUG = Some ''true'' \<rparr>"

definition lead :: json where
  "lead = JObj [(''applicant'', JObj [(''firstName'', JStr ''Ann'')])]"

definition requestOf :: "string \<Rightarrow> json option \<Rightarrow> Request" where
  "requestOf m b = \<lparr> reqMethod = m, reqBody = b, reqStream = [] \<rparr>"

definition streamed :: "string \<Rightarrow> Request" where
  "streamed raw = \<lparr> reqMethod = ''POST'', reqBody = None, reqStream = [Chunk raw] \<rparr>"

definition noBaseEnv :: Env where
  "noBaseEnv = \<lparr> REPLIT_CRM_BASE_URL = None, REPLIT_NP_API_KEY = Some ''secret-key-0001'',
     CRM_RELAY_DEBUG = None \<rparr>"

text \<open>The call the handlers make under \<open>demoEnv\<close>, but for its body.\<close>

definition demoCall :: "string \<Rightarrow> Outbound" where
  "demoCall b = \<lparr> url = ''https://crm.example.com/api/applications'', outMethod = ''POST'',
     outHeaders = [(''Content-Type'', ''application/json''), (''X-API-Key'', ''secret-key-0001'')],
     outBody = Some b \<rparr>"

section \<open>Properties of the wizard\<close>

subsection \<open>Comparing in upper case and comparing up to case\<close>







lemma upperUnits_nonempty: "upperUnits n \<noteq> []"
  unfolding upperUnits_def by simp

lemma toUpperCase_Nil_iff: "(toUpperCase s = []) = (s = [])"
  by (cases s) (simp_all add: toUpperCase_def upperUnits_nonempty)




subsection \<open>The invariant holds in every session that can arise\<close>

lemma idle_timers: "timersTracked w \<Longrightarrow> \<not> rewardOn w \<Longrightarrow> timeouts w = [] \<and> rewardTimerRef w = None"
  by (cases "timeouts w") (auto simp: timersTracked_def)

lemma busy_timers: "timersTracked w \<Longrightarrow> rewardOn w \<Longrightarrow>
   \<exists>t. timeouts w = [t] \<and> tid t \<noteq> 0 \<and> rewardTimerRef w = Some (tid t) \<and> pendingOk (after t) w"
  by (cases "timeouts w") (auto simp: timersTracked_def)

lemma pending_view: "timersTracked w \<Longrightarrow> rewardOn w \<Longrightarrow>
    view w = P2 \<or> view w = P3 \<or> (view w = P5 \<and> p5Stage w = Email \<and> sendState w = Sent)"
  using busy_timers[of w] by (auto elim!: pendingOk.elims)

lemma flight_view: "flightOk w \<Longrightarrow> inFlight w \<noteq> [] \<Longrightarrow>
   (\<exists>p. inFlight w = [p]) \<and> view w = P5 \<and> p5Stage w = Email \<and> sendState w = Sending
    \<and> \<not> rewardOn w \<and> accessCode w \<noteq> []"
  by (cases "inFlight w") (auto simp: flightOk_def)

lemma showReward_idle:
  "timeouts w = [] \<Longrightarrow> rewardTimerRef w = None \<Longrightarrow>
   showReward l c ms a w = w\<lparr> rewardLetter := Some l, rewardCopy := c, rewardOn := True,
      rewardTimerRef := Some (Suc (timeoutSeq w)), timeouts := [Timeout (Suc (timeoutSeq w)) ms a],
      timeoutSeq := Suc (timeoutSeq w) \<rparr>"
  by (simp add: showReward_def clearRewardTimer_def Let_def)

lemma pendingOk_frame:
  "view w' = view w \<Longrightarrow> p5Stage w' = p5Stage w \<Longrightarrow> sendState w' = sendState w
   \<Longrightarrow> accessCode w' = accessCode w \<Longrightarrow> pendingOk a w' = pendingOk a w"
  by (cases a) simp_all

lemma timersTracked_frame:
  "view w' = view w \<Longrightarrow> p5Stage w' = p5Stage w \<Longrightarrow> sendState w' = sendState w
   \<Longrightarrow> accessCode w' = accessCode w \<Longrightarrow> timeouts w' = timeouts w \<Longrightarrow>
   rewardTimerRef w' = rewardTimerRef w \<Longrightarrow> rewardOn w' = rewardOn w \<Longrightarrow>
   timersTracked w' = timersTracked w"
  by (simp add: timersTracked_def pendingOk_frame[of w' w])

lemma inv_fatal: "sessionInv w \<Longrightarrow> sessionInv (w\<lparr> fatalError := x \<rparr>)"
  by (simp add: sessionInv_def flightOk_def codeOk_def timersTracked_frame[of "w\<lparr> fatalError := x \<rparr>" w])

lemma inv_ClickStart: assumes "sessionInv w" "view w = Landing" shows "sessionInv (goToDecode w)"
proof -
  from assms have nr: "\<not> rewardOn w" using pending_view[of w] by (auto simp: sessionInv_def)
  with assms have t: "timeouts w = []" "rewardTimerRef w = None" using idle_timers[of w] by (auto simp: sessionInv_def)
  from assms have f: "inFlight w = []" using flight_view[of w] by (auto simp: sessionInv_def)
  show ?thesis using t f
    by (simp add: sessionInv_def goToDecode_def goTo_def resetFlow_def clearRewardTimer_def
        timersTracked_def flightOk_def codeOk_def)
qed

lemma generateLoop_props:
  "list_all (\<lambda>d. d < length chars) ds \<Longrightarrow> list_all (\<lambda>x. x \<in> set chars) out \<Longrightarrow>
   length (generateLoop ds out) = length out + length ds
   \<and> list_all (\<lambda>x. x \<in> set chars) (generateLoop ds out)"
  by (induction ds arbitrary: out) auto

lemma genCode_generate: "validDraws ds \<Longrightarrow> genCode (generateAccessCode ds)"
  using generateLoop_props[of ds "[]"] by (simp add: validDraws_def genCode_def generateAccessCode_def)

lemma genCode_nonempty: "genCode c \<Longrightarrow> c \<noteq> []"
  by (auto simp: genCode_def)

lemma inv_idle:
  assumes "sessionInv w" "\<not> rewardOn w"
  shows "timeouts w = []" "rewardTimerRef w = None"
  using assms idle_timers[of w] by (auto simp: sessionInv_def)

lemma inv_no_flight:
  assumes "sessionInv w" "view w \<noteq> P5 \<or> p5Stage w \<noteq> Email \<or> sendState w \<noteq> Sending \<or> rewardOn w"
  shows "inFlight w = []"
  using assms flight_view[of w] by (auto simp: sessionInv_def)

lemma inv_TypeFirst: "sessionInv w \<Longrightarrow> sessionInv (w\<lparr> p2First := x \<rparr>)"
  by (simp add: sessionInv_def flightOk_def codeOk_def timersTracked_frame[of "w\<lparr> p2First := x \<rparr>" w])

lemma inv_TypeLast: "sessionInv w \<Longrightarrow> view w = P3 \<Longrightarrow> \<not> rewardOn w \<Longrightarrow> sessionInv (w\<lparr> lastName := x \<rparr>)"
  by (simp add: sessionInv_def flightOk_def codeOk_def timersTracked_frame[of "w\<lparr> lastName := x \<rparr>" w])

lemma inv_TypeCode: "sessionInv w \<Longrightarrow> sessionInv (w\<lparr> codeInput := x \<rparr>)"
  by (simp add: sessionInv_def flightOk_def codeOk_def timersTracked_frame[of "w\<lparr> codeInput := x \<rparr>" w])

lemma inv_SubmitFirst:
  assumes "sessionInv w" "view w = P2" "\<not> rewardOn w" shows "sessionInv (submitFirstFromP2 w)"
proof -
  have t: "timeouts w = []" "rewardTimerRef w = None" using assms inv_idle by auto
  have f: "inFlight w = []" using assms inv_no_flight by auto
  have c: "codeOk w" using assms by (simp add: sessionInv_def)
  show ?thesis using assms t f c
    by (simp add: submitFirstFromP2_def Let_def showReward_idle sessionInv_def timersTracked_def
        flightOk_def codeOk_def)
qed

lemma inv_SubmitLast:
  assumes "sessionInv w" "view w = P3" "\<not> rewardOn w" shows "sessionInv (submitLast w)"
proof -
  have t: "timeouts w = []" "rewardTimerRef w = None" using assms inv_idle by auto
  have f: "inFlight w = []" using assms inv_no_flight by auto
  have c: "codeOk w" using assms by (simp add: sessionInv_def)
  show ?thesis using assms t f c
    by (simp add: submitLast_def Let_def showReward_idle sessionInv_def timersTracked_def
        flightOk_def codeOk_def)
qed

lemma inv_ClickContinue:
  assumes "sessionInv w" "view w = P4" "\<not> rewardOn w" shows "sessionInv (continueFromAwakening w)"
proof -
  have t: "timeouts w = []" "rewardTimerRef w = None" using assms inv_idle by auto
  have f: "inFlight w = []" using assms inv_no_flight by auto
  have c: "codeOk w" using assms by (simp add: sessionInv_def)
  show ?thesis using assms t f c
    by (simp add: continueFromAwakening_def goTo_def sessionInv_def timersTracked_def
        flightOk_def codeOk_def)
qed

lemma inv_TypeEmail:
  assumes "sessionInv w" "\<not> rewardOn w" "sendState w \<noteq> Sending" shows "sessionInv (emailOnChange v w)"
proof -
  have t: "timeouts w = []" "rewardTimerRef w = None" using assms inv_idle by auto
  have f: "inFlight w = []" using assms inv_no_flight by auto
  have c: "codeOk w" using assms by (simp add: sessionInv_def)
  show ?thesis using assms t f c
    by (simp add: emailOnChange_def Let_def sessionInv_def timersTracked_def flightOk_def codeOk_def)
qed

lemma inv_SubmitEmail:
  assumes "sessionInv w" "view w = P5" "p5Stage w = Email" "\<not> rewardOn w" "sendState w \<noteq> Sending"
    "validDraws ds"
  shows "sessionInv (submitEmailFromP5 br ds w)"
proof -
  have t: "timeouts w = []" "rewardTimerRef w = None" using assms inv_idle by auto
  have f: "inFlight w = []" using assms inv_no_flight by auto
  have c: "accessCode w \<noteq> [] \<longrightarrow> genCode (accessCode w)" using assms
    by (auto simp: sessionInv_def codeOk_def)
  have g: "genCode (generateAccessCode ds)" "generateAccessCode ds \<noteq> []"
    using assms genCode_generate genCode_nonempty by auto
  show ?thesis using assms(1-5) t f c g
    by (simp add: submitEmailFromP5_def Let_def sessionInv_def timersTracked_def flightOk_def codeOk_def)
qed

lemma inv_CrmSettles:
  assumes "sessionInv w" "i < length (inFlight w)"
  shows "sessionInv (settleEmail oc (w\<lparr> inFlight := take i (inFlight w) @ drop (Suc i) (inFlight w) \<rparr>))"
proof -
  have ne: "inFlight w \<noteq> []" using assms by auto
  then have fv: "(\<exists>p. inFlight w = [p])" "view w = P5" "p5Stage w = Email" "sendState w = Sending"
    "\<not> rewardOn w" "accessCode w \<noteq> []"
    using assms flight_view[of w] by (auto simp: sessionInv_def)
  have t: "timeouts w = []" "rewardTimerRef w = None" using assms fv inv_idle by auto
  have c: "codeOk w" using assms by (simp add: sessionInv_def)
  from fv(1) assms(2) have r: "take i (inFlight w) @ drop (Suc i) (inFlight w) = []" by auto
  show ?thesis unfolding r using fv(2-6) t c
    by (cases oc) (simp_all add: settleEmail_def showReward_idle sessionInv_def timersTracked_def
        flightOk_def codeOk_def)
qed

lemma inv_SubmitCode:
  assumes "sessionInv w" "view w = P5" "p5Stage w = Code" "\<not> rewardOn w" shows "sessionInv (submitCode w)"
proof -
  have t: "timeouts w = []" "rewardTimerRef w = None" using assms inv_idle by auto
  have f: "inFlight w = []" using assms inv_no_flight by auto
  have c: "codeOk w" using assms by (simp add: sessionInv_def)
  show ?thesis using assms t f c
    by (simp add: submitCode_def goTo_def Let_def sessionInv_def timersTracked_def flightOk_def codeOk_def)
qed

lemma inv_BackToStart:
  assumes "sessionInv w" "view w = Info" shows "sessionInv (goTo Landing w)"
proof -
  from assms have nr: "\<not> rewardOn w" using pending_view[of w] by (auto simp: sessionInv_def)
  have t: "timeouts w = []" "rewardTimerRef w = None" using assms nr inv_idle by auto
  have f: "inFlight w = []" using assms inv_no_flight by auto
  have c: "codeOk w" using assms by (simp add: sessionInv_def)
  show ?thesis using assms t f c nr
    by (simp add: goTo_def sessionInv_def timersTracked_def flightOk_def codeOk_def)
qed

lemma inv_TimeoutFires:
  assumes "sessionInv w" "find (\<lambda>t. tid t = i) (timeouts w) = Some t"
  shows "sessionInv (rewardTimeout (after t) (w\<lparr> timeouts := filter (\<lambda>t. tid t \<noteq> i) (timeouts w) \<rparr>))"
proof -
  have tt: "timersTracked w" and c: "codeOk w" using assms by (simp_all add: sessionInv_def)
  from assms(2) have ne: "timeouts w \<noteq> []" by auto
  with tt have on: "rewardOn w" by (cases "timeouts w") (auto simp: timersTracked_def)
  from busy_timers[OF tt on] obtain t0 where t0: "timeouts w = [t0]" "pendingOk (after t0) w" by auto
  with assms(2) have e: "t = t0" "tid t0 = i" by (auto split: if_splits)
  have f: "inFlight w = []" using assms on inv_no_flight by auto
  show ?thesis using t0 e f c
    by (cases "after t0")
       (auto simp: rewardTimeout_def runAfter_def goTo_def sessionInv_def timersTracked_def
        flightOk_def codeOk_def)
qed

lemma step_inv: "sessionInv w \<Longrightarrow> step e w = Some w' \<Longrightarrow> sessionInv w'"
proof (cases e)
  case (TimeoutFires i)
  assume "sessionInv w" "step e w = Some w'"
  then show ?thesis using TimeoutFires inv_TimeoutFires[of w i]
    by (auto split: option.splits)
qed (auto simp: guarded_def inv_fatal inv_ClickStart inv_TypeFirst inv_SubmitFirst inv_TypeLast
      inv_SubmitLast inv_ClickContinue inv_TypeEmail inv_SubmitEmail inv_CrmSettles inv_TypeCode
      inv_SubmitCode inv_BackToStart split: if_splits)

lemma inv_initial: "sessionInv initial"
  by (simp add: sessionInv_def initial_def timersTracked_def flightOk_def codeOk_def)

lemma reachable_inv: "reachable w \<Longrightarrow> sessionInv w"
  by (induction rule: reachable.induct) (auto intro: inv_initial step_inv)






subsection \<open>The sample sessions run as defined\<close>

lemmas run_defs = initial_def guarded_def goToDecode_def goTo_def resetFlow_def
  clearRewardTimer_def submitFirstFromP2_def safeTrimMax_def sliceTo_def trim_def isWhiteSpace_def
  showReward_def Let_def rewardTimeout_def runAfter_def submitLast_def continueFromAwakening_def
  emailOnChange_def submitEmailFromP5_def isValidEmail_def validDraws_def chars_def
  generateAccessCode_def settleEmail_def submitCode_def toUpperCase_def upperUnits_def

lemma run_append: "run (es @ fs) w = (case run es w of None \<Rightarrow> None | Some w' \<Rightarrow> run fs w')"
  by (induction es arbitrary: w) (auto split: option.splits)

lemma run_reachable: "reachable w \<Longrightarrow> run es w = Some w' \<Longrightarrow> reachable w'"
  by (induction es arbitrary: w) (auto split: option.splits intro: reachable.intros)

lemma run_toReward: "run toReward initial = Some rewardState"
  by (simp add: toReward_def rewardState_def run_defs)

lemma run_toEmailSent: "run toEmailSent initial = Some inFlightState"
  by (simp add: toEmailSent_def run_append run_toReward)
     (simp add: rewardState_def inFlightState_def demoPayload_def run_defs)

lemma run_toCodeGate: "run toCodeGate initial = Some atCodeGate"
  by (simp add: toCodeGate_def run_append run_toEmailSent)
     (simp add: inFlightState_def atCodeGate_def run_defs)

lemma run_toInfo: "run toInfo initial = Some atInfo"
  by (simp add: toInfo_def run_append run_toCodeGate)
     (simp add: atCodeGate_def atInfo_def run_defs)

lemma reachable_rewardState: "reachable rewardState"
  using run_reachable[OF reach_initial run_toReward] .

lemma reachable_inFlightState: "reachable inFlightState"
  using run_reachable[OF reach_initial run_toEmailSent] .


subsection \<open>The code gate\<close>










text \<open>
  What \<open>submitCode\<close> does with an empty stored code and an entry that is not blank: nothing
  while the reward overlay is on, else it goes to the final screen.
\<close>

lemma trim_Nil: "trim [] = []"
  by (simp add: trim_def)

lemma submitCode_empty_code:
  "accessCode w = [] \<Longrightarrow> trim (codeInput w) \<noteq> [] \<Longrightarrow>
   submitCode w = (if rewardOn w then w else goTo Info w)"
  by (simp add: submitCode_def toUpperCase_Nil_iff trim_Nil Let_def)

text \<open>
  Claim C10. In a submit at the code gate, when the stored access code is the empty string
  every entry that is not empty after trimming moves the view to the final screen.
\<close>

theorem empty_code_gate:
  "step SubmitCode w = Some w' \<Longrightarrow> accessCode w = [] \<Longrightarrow> trim (codeInput w) \<noteq> []
   \<Longrightarrow> view w' = Info"
  by (auto simp: guarded_def submitCode_def goTo_def toUpperCase_Nil_iff trim_Nil Let_def
      split: if_splits)

theorem empty_code_gate_witness:
  "step SubmitCode emptyCodeState = Some (emptyCodeState\<lparr> view := Info \<rparr>)
   \<and> accessCode emptyCodeState = [] \<and> trim (codeInput emptyCodeState) \<noteq> []
   \<and> view (emptyCodeState\<lparr> view := Info \<rparr>) = Info"
proof -
  have s: "step SubmitCode emptyCodeState = Some (emptyCodeState\<lparr> view := Info \<rparr>)"
    by (simp add: emptyCodeState_def run_defs)
  have a: "accessCode emptyCodeState = []" by (simp add: emptyCodeState_def initial_def)
  have c: "trim (codeInput emptyCodeState) \<noteq> []"
    by (simp add: emptyCodeState_def initial_def trim_def isWhiteSpace_def)
  show ?thesis using empty_code_gate[OF s a c] s a c by simp
qed

subsection \<open>The resubmission guard\<close>

text \<open>
  Claim C8. In every session that can arise at most one submission is in flight, and while
  one is, triggering the email submission again changes nothing: \<open>submitEmailFromP5\<close>
  returns the session as it is, posts included, and the control that would call it is
  disabled.
\<close>

theorem single_flight:
  assumes "reachable w"
  shows "length (inFlight w) \<le> 1
       \<and> (inFlight w \<noteq> [] \<longrightarrow>
            submitEmailFromP5 br ds w = w \<and> step (SubmitEmail br ds) w = None)"
proof -
  have inv: "sessionInv w" using assms by (rule reachable_inv)
  then have "flightOk w" by (simp add: sessionInv_def)
  then show ?thesis by (auto simp: flightOk_def submitEmailFromP5_def guarded_def)
qed

theorem single_flight_witness:
  "reachable inFlightState \<and> inFlight inFlightState = [demoPayload]
   \<and> submitEmailFromP5 demoBrowser [7, 6, 5, 4, 3, 2, 1, 0] inFlightState = inFlightState
   \<and> posted (submitEmailFromP5 demoBrowser [7, 6, 5, 4, 3, 2, 1, 0] inFlightState) = [demoPayload]"
proof -
  have f: "inFlight inFlightState = [demoPayload]" "posted inFlightState = [demoPayload]"
    by (simp_all add: inFlightState_def initial_def)
  show ?thesis
    using single_flight[OF reachable_inFlightState, of demoBrowser "[7, 6, 5, 4, 3, 2, 1, 0]"]
      reachable_inFlightState f
    by simp
qed

subsection \<open>Reset\<close>

lemma clearRewardTimer_tracked:
  assumes "timersTracked w"
  shows "timeouts (clearRewardTimer w) = []"
proof (cases "rewardOn w")
  case True
  from busy_timers[OF assms True] show ?thesis by (auto simp: clearRewardTimer_def)
next
  case False
  from idle_timers[OF assms False] show ?thesis by (simp add: clearRewardTimer_def)
qed

text \<open>
  Claim C4, as the code has it. In every session that can arise \<open>resetFlow\<close> empties the
  captured fields (first name, last name, email, access code, entered code and the first
  name draft) and clears the pending reward timeout, so that no timeout is left to fire;
  it leaves the view where it is. \<open>goToDecode\<close>, the only caller, then shows the first
  name step, and the final screen's way back to landing, \<open>goTo("landing")\<close>, changes the
  view and nothing else.
\<close>

theorem resetFlow_clears:
  assumes "reachable w"
  shows "firstName (resetFlow w) = [] \<and> lastName (resetFlow w) = [] \<and> email (resetFlow w) = []
       \<and> accessCode (resetFlow w) = [] \<and> codeInput (resetFlow w) = []
       \<and> p2First (resetFlow w) = []
       \<and> timeouts (resetFlow w) = [] \<and> step (TimeoutFires i) (resetFlow w) = None
       \<and> view (resetFlow w) = view w \<and> view (goToDecode w) = P2
       \<and> goTo Landing w = w\<lparr> view := Landing \<rparr>"
proof -
  have inv: "sessionInv w" using assms by (rule reachable_inv)
  let ?w1 = "w\<lparr> p2First := [], firstName := [], lastName := [], email := [],
                   accessCode := [], codeInput := [], p5Stage := Email,
                   sendState := Idle, sendMsg := [] \<rparr>"
  have tt: "timersTracked w" using inv by (simp add: sessionInv_def)
  have c: "clearRewardTimer ?w1 = (clearRewardTimer w)\<lparr> p2First := [], firstName := [],
                   lastName := [], email := [], accessCode := [], codeInput := [],
                   p5Stage := Email, sendState := Idle, sendMsg := [] \<rparr>"
    by (simp add: clearRewardTimer_def split: option.splits)
  have t: "timeouts (resetFlow w) = []"
    using clearRewardTimer_tracked[OF tt] by (simp add: resetFlow_def Let_def c)
  have f: "firstName (resetFlow w) = [] \<and> lastName (resetFlow w) = [] \<and> email (resetFlow w) = []
       \<and> accessCode (resetFlow w) = [] \<and> codeInput (resetFlow w) = [] \<and> p2First (resetFlow w) = []
       \<and> view (resetFlow w) = view w"
    by (simp add: resetFlow_def Let_def c) (simp add: clearRewardTimer_def split: option.splits)
  show ?thesis using t f by (simp add: goToDecode_def goTo_def)
qed

theorem resetFlow_clears_witness:
  "reachable rewardState \<and> firstName rewardState = ''Ann''
   \<and> timeouts rewardState = [Timeout 1 950 (GoTo P3)]
   \<and> firstName (resetFlow rewardState) = [] \<and> timeouts (resetFlow rewardState) = []
   \<and> step (TimeoutFires 1) (resetFlow rewardState) = None
   \<and> view (resetFlow rewardState) = P2"
proof -
  have f: "firstName rewardState = ''Ann''" "timeouts rewardState = [Timeout 1 950 (GoTo P3)]"
    "view rewardState = P2"
    by (simp_all add: rewardState_def initial_def)
  show ?thesis using resetFlow_clears[OF reachable_rewardState, of 1] reachable_rewardState f
    by simp
qed

text \<open>
  Claim C4 as stated fails: at the final screen of the sample session, \<open>resetFlow\<close> leaves
  the view at the final screen, \<open>goToDecode\<close> ends at the first name step, and the way back
  to landing keeps the captured first name.
\<close>

theorem reset_counterexample:
  "run toInfo initial = Some atInfo
   \<and> view (resetFlow atInfo) = Info \<and> view (goToDecode atInfo) = P2
   \<and> view (goTo Landing atInfo) = Landing \<and> firstName (goTo Landing atInfo) = ''Ann''
   \<and> accessCode (goTo Landing atInfo) = ''ABCDEFGH''"
  using run_toInfo by (simp add: atInfo_def atCodeGate_def run_defs)

subsection \<open>The lead payload\<close>

text \<open>
  Claim C9, as the code has it. Every payload built by \<open>buildCanonPayload\<close> has an applicant
  record of the same 24 fields in the same order; first name, last name and email are the
  trimmed inputs cut to 40, 60 and 120 units; \<open>consent\<close> is \<open>true\<close>; every other field is
  the empty string or zero.
\<close>

theorem applicant_shape:
  "map fst (applicant (buildCanonPayload br fn ln em ac)) =
     [''firstName'', ''lastName'', ''email'', ''phone'', ''consent'', ''vehicleType'',
      ''incomeAbove1800'', ''monthlyIncome'', ''yearsReceivingIncome'', ''monthsReceivingIncome'',
      ''dobMonth'', ''dobDay'', ''dobYear'', ''companyName'', ''jobTitle'', ''housingPayment'',
      ''street1'', ''street2'', ''city'', ''state'', ''zip'', ''yearsAtAddress'',
      ''monthsAtAddress'', ''ssn'']
   \<and> map_of (applicant (buildCanonPayload br fn ln em ac)) ''firstName''
       = Some (JStr (safeTrimMax fn 40))
   \<and> map_of (applicant (buildCanonPayload br fn ln em ac)) ''lastName''
       = Some (JStr (safeTrimMax ln 60))
   \<and> map_of (applicant (buildCanonPayload br fn ln em ac)) ''email''
       = Some (JStr (safeTrimMax em 120))
   \<and> map_of (applicant (buildCanonPayload br fn ln em ac)) ''consent'' = Some (JBool True)
   \<and> uncollectedDefaulted [''firstName'', ''lastName'', ''email'', ''consent'']
        (applicant (buildCanonPayload br fn ln em ac))"
  by (simp add: buildCanonPayload_def uncollectedDefaulted_def)

theorem applicant_shape_witness:
  "map_of (applicant demoPayload) ''firstName'' = Some (JStr ''Ann'')
   \<and> map_of (applicant demoPayload) ''email'' = Some (JStr ''ann@example.com'')
   \<and> map_of (applicant demoPayload) ''consent'' = Some (JBool True)
   \<and> uncollectedDefaulted [''firstName'', ''lastName'', ''email'', ''consent'']
        (applicant demoPayload)"
  using applicant_shape[of demoBrowser "''Ann''" "''Lee''" "''ann@example.com''" "''ABCDEFGH''"]
  by (simp add: demoPayload_def safeTrimMax_def sliceTo_def trim_def isWhiteSpace_def)

text \<open>
  Claim C9 as stated fails: in the sample payload the field \<open>consent\<close>, which the wizard
  never asks for, is \<open>true\<close>, neither the empty string nor zero.
\<close>

theorem applicant_counterexample:
  "map_of (applicant demoPayload) ''consent'' = Some (JBool True)
   \<and> \<not> uncollectedDefaulted [''firstName'', ''lastName'', ''email''] (applicant demoPayload)"
  by (simp add: demoPayload_def buildCanonPayload_def uncollectedDefaulted_def)

section \<open>Properties of the relay\<close>

lemmas reply_defs = noCall_def afterCall_def jsonReply_def endReply_def

lemmas handler_defs = handler_part000_def handler_part001_def handler_part002_def
  handler_part003a_def handler_part003b_def handler_App1590_def handler_App1662_def
  strictRelay_def relayWithKeyHeaders_def

lemmas demo_defs = demoPlatform_def demoEnv_def emptyEnv_def shortKeyEnv_def requestOf_def
  streamed_def lead_def badKey403_def longText500_def created201_def demoParse_def
  demoStringify_def badKeyText_def

lemmas eval_defs = Let_def reply_defs field_def falsy_def orEmpty_def stripSlash_def
  stripSlashes_def trim_def isWhiteSpace_def upOk_def parseOrRaw_def debugFlag_def
  toLowerCase_def lowerCode_def hasApplicant_def readByContentType_def whenOn_def optKey_def
  safeDebug_def sliceTo_def sliceLast_def cutText_def safeJsonParse_def messageOr_def

subsection \<open>The calls a handler makes\<close>

lemma lower_names:
  "toLowerCase ''X-API-Key'' = ''x-api-key''"
  "toLowerCase ''X-API-KEY'' = ''x-api-key''"
  "toLowerCase ''Content-Type'' = ''content-type''"
  by (simp_all add: toLowerCase_def lowerCode_def char_of_eq_iff)

lemma one_key_header:
  "credentialCount \<lparr> url = u, outMethod = m,
      outHeaders = [(''Content-Type'', ''application/json''), (''X-API-Key'', k)], outBody = b \<rparr> = 1"
  by (simp add: credentialCount_def lower_names)

lemma two_key_headers:
  "credentialCount \<lparr> url = u, outMethod = m,
      outHeaders = [(''Content-Type'', ''application/json''), (''X-API-Key'', k), (''X-API-KEY'', k)],
      outBody = b \<rparr> = 2"
  by (simp add: credentialCount_def lower_names)

lemma calls_part000:
  "c \<in> set (calls (handler_part000 pf env rq)) \<Longrightarrow>
     calls (handler_part000 pf env rq) = [c] \<and> credentialCount c = 1
     \<and> (''Content-Type'', ''application/json'') \<in> set (outHeaders c) \<and> outMethod c = ''POST''"
  by (auto simp: handler_part000_def Let_def reply_defs one_key_header split: if_splits sum.splits)

lemma calls_part002:
  "c \<in> set (calls (handler_part002 pf env rq)) \<Longrightarrow>
     calls (handler_part002 pf env rq) = [c] \<and> credentialCount c = 1
     \<and> (''Content-Type'', ''application/json'') \<in> set (outHeaders c) \<and> outMethod c = ''POST''"
  by (auto simp: handler_part002_def Let_def reply_defs one_key_header split: if_splits sum.splits)

lemma calls_App1590:
  "c \<in> set (calls (handler_App1590 pf env rq)) \<Longrightarrow>
     calls (handler_App1590 pf env rq) = [c] \<and> credentialCount c = 1
     \<and> (''Content-Type'', ''application/json'') \<in> set (outHeaders c) \<and> outMethod c = ''POST''"
  by (auto simp: handler_App1590_def Let_def reply_defs one_key_header split: if_splits sum.splits)

lemma calls_App1662:
  "c \<in> set (calls (handler_App1662 pf env rq)) \<Longrightarrow>
     calls (handler_App1662 pf env rq) = [c] \<and> credentialCount c = 1
     \<and> (''Content-Type'', ''application/json'') \<in> set (outHeaders c) \<and> outMethod c = ''POST''"
  by (auto simp: handler_App1662_def relayWithKeyHeaders_def Let_def reply_defs one_key_header
      split: if_splits sum.splits)

lemma calls_part003b:
  "c \<in> set (calls (handler_part003b pf env rq)) \<Longrightarrow>
     calls (handler_part003b pf env rq) = [c] \<and> credentialCount c = 2"
  by (auto simp: handler_part003b_def relayWithKeyHeaders_def Let_def reply_defs two_key_headers
      split: if_splits sum.splits)

lemma calls_strict:
  "c \<in> set (calls (strictRelay h p pf env rq)) \<Longrightarrow>
     calls (strictRelay h p pf env rq) = [c] \<and> credentialCount c = 1
     \<and> (''Content-Type'', ''application/json'') \<in> set (outHeaders c) \<and> outMethod c = ''POST''"
  by (auto simp: strictRelay_def Let_def reply_defs one_key_header
      split: if_splits sum.splits option.splits json.splits)

text \<open>
  Every handler but the second of \<open>part_003\<close> makes at most one call, a \<open>POST\<close> with
  \<open>Content-Type: application/json\<close> and one credential header.
\<close>

lemma single_credential:
  assumes "v \<noteq> Part003b" "c \<in> set (calls (handler v pf env rq))"
  shows "calls (handler v pf env rq) = [c] \<and> credentialCount c = 1
       \<and> (''Content-Type'', ''application/json'') \<in> set (outHeaders c) \<and> outMethod c = ''POST''"
  using assms calls_part000[of c pf env rq] calls_part002[of c pf env rq]
    calls_App1590[of c pf env rq] calls_App1662[of c pf env rq] calls_strict[of c _ _ pf env rq]
  by (cases v) (simp_all add: handler_part001_def handler_part003a_def)

text \<open>
  Claim C1 fails in the second handler of \<open>part_003\<close>: a \<open>POST\<close> it forwards goes out with
  the key under \<open>X-API-Key\<close> and again under \<open>X-API-KEY\<close>, two credential headers.
\<close>

theorem duplicate_credential:
  "map outHeaders (calls (handler Part003b (demoPlatform created201) demoEnv
        (requestOf ''POST'' (Some lead))))
     = [[(''Content-Type'', ''application/json''), (''X-API-Key'', ''secret-key-0001''),
         (''X-API-KEY'', ''secret-key-0001'')]]
   \<and> map credentialCount (calls (handler Part003b (demoPlatform created201) demoEnv
        (requestOf ''POST'' (Some lead)))) = [2]"
  by (simp add: handler_part003b_def relayWithKeyHeaders_def demo_defs eval_defs
      credentialCount_def char_of_eq_iff)

subsection \<open>\<open>OPTIONS\<close>\<close>

text \<open>
  Claim C5, as the code has it. No handler calls the upstream for an \<open>OPTIONS\<close> request.
  The three handlers that set the cross-origin headers end the response with no body,
  \<open>part_000\<close> with status 200 and the other two with 204; the four others answer as to any
  method but \<open>POST\<close>, with status 405 and a JSON body.
\<close>

lemma options_answer:
  assumes "reqMethod rq = ''OPTIONS''"
  shows "calls (handler v pf env rq) = []
       \<and> (answersOptions v \<longrightarrow>
            reply (handler v pf env rq) = endReply (corsHeaders v) (optionsStatus v))
       \<and> (\<not> answersOptions v \<longrightarrow>
            reply (handler v pf env rq)
              = jsonReply [] 405 [(''ok'', JBool False), (''error'', JStr ''Method not allowed'')])"
  using assms by (cases v) (simp_all add: handler_defs Let_def noCall_def)

theorem options_answer_witness:
  "reqMethod (requestOf ''OPTIONS'' None) = ''OPTIONS''
   \<and> handler Part000 (demoPlatform created201) demoEnv (requestOf ''OPTIONS'' None)
       = noCall \<lparr> status = 200, resHeaders = cors000, resBody = None \<rparr>
   \<and> handler Part003a (demoPlatform created201) demoEnv (requestOf ''OPTIONS'' None)
       = noCall \<lparr> status = 204, resHeaders = cors001, resBody = None \<rparr>
   \<and> status (reply (handler App1662 (demoPlatform created201) demoEnv (requestOf ''OPTIONS'' None)))
       = 405"
proof -
  have m: "reqMethod (requestOf ''OPTIONS'' None) = ''OPTIONS''" by (simp add: requestOf_def)
  show ?thesis
    using options_answer[OF m, of Part000 "demoPlatform created201" demoEnv]
      options_answer[OF m, of Part003a "demoPlatform created201" demoEnv]
      options_answer[OF m, of App1662 "demoPlatform created201" demoEnv] m
    by (simp add: noCall_def endReply_def jsonReply_def)
qed

text \<open>
  Claim C5 as stated fails: \<open>part_002\<close> answers an \<open>OPTIONS\<close> request with 405 and a body.
\<close>

theorem options_counterexample:
  "calls (handler Part002 (demoPlatform created201) demoEnv (requestOf ''OPTIONS'' None)) = []
   \<and> status (reply (handler Part002 (demoPlatform created201) demoEnv (requestOf ''OPTIONS'' None))) = 405
   \<and> resBody (reply (handler Part002 (demoPlatform created201) demoEnv (requestOf ''OPTIONS'' None)))
       = Some (JObj [(''ok'', JBool False), (''error'', JStr ''Method not allowed'')])"
  by (simp add: handler_part002_def demo_defs eval_defs)

subsection \<open>Missing configuration\<close>

lemma absent_config_reply:
  assumes "reqMethod rq = ''POST''" "absent v (REPLIT_CRM_BASE_URL env) \<or> absent v (REPLIT_NP_API_KEY env)"
  shows "calls (handler v pf env rq) = [] \<and> status (reply (handler v pf env rq)) = 500
       \<and> (listsMissing v \<longrightarrow> field ''missing'' (reply (handler v pf env rq))
             = Some (JObj [(''REPLIT_CRM_BASE_URL'', JBool (absent v (REPLIT_CRM_BASE_URL env))),
                           (''REPLIT_NP_API_KEY'', JBool (absent v (REPLIT_NP_API_KEY env)))]))"
  using assms
  by (cases v) (auto simp: handler_defs Let_def reply_defs field_def)

lemma absent_config_blind:
  assumes "reqMethod rq = ''POST''" "absent v (REPLIT_CRM_BASE_URL env)"
    "\<not> previewsKey v \<or> CRM_RELAY_DEBUG env \<noteq> Some ''true''" "trim k \<noteq> []" "trim k' \<noteq> []"
  shows "handler v pf (env\<lparr> REPLIT_NP_API_KEY := Some k \<rparr>) rq
       = handler v pf (env\<lparr> REPLIT_NP_API_KEY := Some k' \<rparr>) rq"
proof -
  have ne: "k \<noteq> []" "k' \<noteq> []" using assms(4,5) by (auto simp: trim_def)
  show ?thesis using assms ne
    by (cases v) (auto simp: handler_defs Let_def reply_defs falsy_def orEmpty_def safeDebug_def
        debugFlag_def optKey_def)
qed

text \<open>
  Claim C6, as the code has it. When the base address or the key is absent, every handler
  answers a \<open>POST\<close> with status 500 and calls nothing. The handlers of \<open>part_000\<close>,
  \<open>part_001\<close> and the first of \<open>part_003\<close> list which of the two is missing; the others name
  both variables in one fixed message. With the base address absent the outcome is the same
  for any two keys that are not blank, in the handlers without a key preview always, in
  the two with one as long as \<open>CRM_RELAY_DEBUG\<close> is not \<open>"true"\<close>.
\<close>

theorem missing_config:
  assumes "reqMethod rq = ''POST''"
    "absent v (REPLIT_CRM_BASE_URL env) \<or> absent v (REPLIT_NP_API_KEY env)"
  shows "calls (handler v pf env rq) = [] \<and> status (reply (handler v pf env rq)) = 500
       \<and> (listsMissing v \<longrightarrow> field ''missing'' (reply (handler v pf env rq))
             = Some (JObj [(''REPLIT_CRM_BASE_URL'', JBool (absent v (REPLIT_CRM_BASE_URL env))),
                           (''REPLIT_NP_API_KEY'', JBool (absent v (REPLIT_NP_API_KEY env)))]))
       \<and> (\<not> listsMissing v \<longrightarrow> field ''missing'' (reply (handler v pf env rq)) = None
            \<and> field ''error'' (reply (handler v pf env rq))
                = Some (JStr ''Missing REPLIT_CRM_BASE_URL or REPLIT_NP_API_KEY''))
       \<and> (absent v (REPLIT_CRM_BASE_URL env) \<longrightarrow>
            \<not> previewsKey v \<or> CRM_RELAY_DEBUG env \<noteq> Some ''true'' \<longrightarrow>
            trim k \<noteq> [] \<longrightarrow> trim k' \<noteq> [] \<longrightarrow>
              handler v pf (env\<lparr> REPLIT_NP_API_KEY := Some k \<rparr>) rq
            = handler v pf (env\<lparr> REPLIT_NP_API_KEY := Some k' \<rparr>) rq)"
proof -
  have e: "\<not> listsMissing v \<longrightarrow> field ''missing'' (reply (handler v pf env rq)) = None
            \<and> field ''error'' (reply (handler v pf env rq))
                = Some (JStr ''Missing REPLIT_CRM_BASE_URL or REPLIT_NP_API_KEY'')"
    using assms
    by (cases v) (auto simp: handler_defs Let_def reply_defs field_def optKey_def whenOn_def
        safeDebug_def)
  show ?thesis
    using absent_config_reply[OF assms, of pf] absent_config_blind[OF assms(1), of v env k k' pf] e
    by blast
qed

theorem missing_config_witness:
  "reqMethod (requestOf ''POST'' (Some lead)) = ''POST''
   \<and> absent Part000 (REPLIT_CRM_BASE_URL noBaseEnv)
   \<and> calls (handler Part000 (demoPlatform created201) noBaseEnv (requestOf ''POST'' (Some lead))) = []
   \<and> status (reply (handler Part000 (demoPlatform created201) noBaseEnv
        (requestOf ''POST'' (Some lead)))) = 500
   \<and> field ''missing'' (reply (handler Part000 (demoPlatform created201) noBaseEnv
        (requestOf ''POST'' (Some lead))))
       = Some (JObj [(''REPLIT_CRM_BASE_URL'', JBool True), (''REPLIT_NP_API_KEY'', JBool False)])
   \<and> handler Part000 (demoPlatform created201) (noBaseEnv\<lparr> REPLIT_NP_API_KEY := Some ''key-one'' \<rparr>)
        (requestOf ''POST'' (Some lead))
     = handler Part000 (demoPlatform created201) (noBaseEnv\<lparr> REPLIT_NP_API_KEY := Some ''key-two'' \<rparr>)
        (requestOf ''POST'' (Some lead))"
proof -
  have m: "reqMethod (requestOf ''POST'' (Some lead)) = ''POST''" by (simp add: requestOf_def)
  have a: "absent Part000 (REPLIT_CRM_BASE_URL noBaseEnv)" "\<not> absent Part000 (REPLIT_NP_API_KEY noBaseEnv)"
    "CRM_RELAY_DEBUG noBaseEnv \<noteq> Some ''true''"
    by (simp_all add: noBaseEnv_def falsy_def)
  have t: "trim ''key-one'' \<noteq> []" "trim ''key-two'' \<noteq> []"
    by (simp_all add: trim_def isWhiteSpace_def)
  show ?thesis
    using missing_config[OF m disjI1[OF a(1)], of "demoPlatform created201" "''key-one''" "''key-two''"]
      m a t
    by simp
qed

text \<open>
  Claim C6 as stated fails: with nothing configured \<open>part_000\<close> answers a \<open>GET\<close> with 405;
  \<open>part_002\<close> answers a \<open>POST\<close> with a message that does not say which value is missing;
  and the last handler of \<open>App.tsx\<close>, with debug on and the eight-unit key \<open>abcd1234\<close>,
  reports the whole key as \<open>apiKeyPrefix8\<close>.
\<close>

theorem missing_config_counterexample:
  "status (reply (handler Part000 (demoPlatform created201) emptyEnv (requestOf ''GET'' None))) = 405
   \<and> resBody (reply (handler Part002 (demoPlatform created201) emptyEnv (requestOf ''POST'' (Some lead))))
       = Some (JObj [(''ok'', JBool False),
                     (''error'', JStr ''Missing REPLIT_CRM_BASE_URL or REPLIT_NP_API_KEY'')])
   \<and> REPLIT_NP_API_KEY shortKeyEnv = Some ''abcd1234''
   \<and> field ''debug'' (reply (handler App1662 (demoPlatform created201) shortKeyEnv
        (requestOf ''POST'' (Some lead))))
       = Some (JObj [(''hasBaseUrl'', JBool False), (''hasApiKey'', JBool True),
                     (''apiKeyLen'', JNum 8), (''apiKeyLast4'', JStr ''1234''),
                     (''apiKeyPrefix8'', JStr ''abcd1234'')])"
  by (simp add: handler_part000_def handler_part002_def handler_App1662_def
      relayWithKeyHeaders_def demo_defs eval_defs)

subsection \<open>Bodies that do not parse\<close>








subsection \<open>Upstream rejections\<close>

lemma not_ok: "300 \<le> upStatus up \<Longrightarrow> \<not> upOk up"
  by (simp add: upOk_def)

lemma reject_text:
  assumes "calls (handler v pf env rq) = [c]" "fetch pf c = Inr up" "\<not> upOk up" "readsText v"
  shows "status (reply (handler v pf env rq)) = 502
       \<and> field ''upstreamStatus'' (reply (handler v pf env rq)) = Some (JNum (int (upStatus up)))
       \<and> field ''upstreamBody'' (reply (handler v pf env rq)) = Some (parseOrRaw pf (upText up))"
proof (cases v)
  case Part000
  then show ?thesis using assms
    by (auto simp: handler_part000_def Let_def reply_defs field_def split: if_splits sum.splits)
next
  case Part002
  then show ?thesis using assms
    by (auto simp: handler_part002_def Let_def reply_defs field_def split: if_splits sum.splits)
next
  case Part003b
  then show ?thesis using assms
    by (auto simp: handler_part003b_def relayWithKeyHeaders_def Let_def reply_defs field_def
        split: if_splits sum.splits)
next
  case App1590
  then show ?thesis using assms
    by (auto simp: handler_App1590_def Let_def reply_defs field_def split: if_splits sum.splits)
next
  case App1662
  then show ?thesis using assms
    by (auto simp: handler_App1662_def relayWithKeyHeaders_def Let_def reply_defs field_def
        split: if_splits sum.splits)
qed (use assms in simp_all)

lemma reject_strict:
  assumes "calls (strictRelay h p pf env rq) = [c]" "fetch pf c = Inr up" "\<not> upOk up"
    "readByContentType pf up = Inr b"
  shows "status (reply (strictRelay h p pf env rq)) = upStatus up
       \<and> field ''status'' (reply (strictRelay h p pf env rq)) = Some (JNum (int (upStatus up)))
       \<and> field ''upstreamBody'' (reply (strictRelay h p pf env rq))
           = Some (if debugFlag env then b else p b)"
  using assms
  by (auto simp: strictRelay_def Let_def reply_defs field_def
      split: if_splits sum.splits option.splits json.splits)

lemma includes_from_fields:
  "field ks r = Some (JNum (int (upStatus up))) \<Longrightarrow> field kb r = Some b \<Longrightarrow>
   b = parseOrRaw pf (upText up) \<or> b = JStr (upText up) \<Longrightarrow> includesUpstream pf up r"
  by (auto simp: field_def includesUpstream_def split: option.splits json.splits dest!: map_of_SomeD)
     (force+)

lemma read_body_cases:
  "readByContentType pf up = Inr b \<Longrightarrow> b = parseOrRaw pf (upText up) \<or> b = JStr (upText up)"
  by (auto simp: readByContentType_def parseOrRaw_def split: if_splits)

text \<open>
  Claim C3, as the code has it, for a forwarded call that the upstream answers with a
  status of 300 or more. The handlers that read the body as text answer 502 and report
  the upstream status as \<open>upstreamStatus\<close> and the body as \<open>upstreamBody\<close>, parsed when it
  parses, else as \<open>{raw: text}\<close>. \<open>part_001\<close> and the first handler of \<open>part_003\<close>, once the
  body is read by its content type, answer with the upstream status, repeat it as
  \<open>status\<close> and report the body as \<open>upstreamBody\<close>: whole in \<open>part_001\<close> and with debug on,
  and in \<open>part_003\<close> with debug off a text cut to its first 500 units.
\<close>

theorem upstream_rejection:
  assumes "calls (handler v pf env rq) = [c]" "fetch pf c = Inr up" "300 \<le> upStatus up"
  shows "(readsText v \<longrightarrow>
            status (reply (handler v pf env rq)) = 502
          \<and> field ''upstreamStatus'' (reply (handler v pf env rq)) = Some (JNum (int (upStatus up)))
          \<and> field ''upstreamBody'' (reply (handler v pf env rq)) = Some (parseOrRaw pf (upText up))
          \<and> includesUpstream pf up (reply (handler v pf env rq)))
       \<and> (\<not> readsText v \<longrightarrow> (\<forall>b. readByContentType pf up = Inr b \<longrightarrow>
            status (reply (handler v pf env rq)) = upStatus up
          \<and> field ''status'' (reply (handler v pf env rq)) = Some (JNum (int (upStatus up)))
          \<and> field ''upstreamBody'' (reply (handler v pf env rq))
              = Some (if v = Part003a \<and> \<not> debugFlag env then cutText b else b)
          \<and> (v = Part001 \<or> debugFlag env \<or> cutText b = b \<longrightarrow>
               includesUpstream pf up (reply (handler v pf env rq)))))"
proof -
  have nok: "\<not> upOk up" using assms(3) by (rule not_ok)
  have t: "readsText v \<Longrightarrow> ?thesis"
  proof -
    assume r: "readsText v"
    from reject_text[OF assms(1,2) nok r] includes_from_fields[of "''upstreamStatus''" _ up "''upstreamBody''" _ pf]
    show ?thesis using r by simp
  qed
  have s: "\<not> readsText v \<Longrightarrow> ?thesis"
  proof -
    assume r: "\<not> readsText v"
    then have v: "v = Part001 \<or> v = Part003a" by (cases v) simp_all
    { fix b assume b: "readByContentType pf up = Inr b"
      have "status (reply (handler v pf env rq)) = upStatus up
          \<and> field ''status'' (reply (handler v pf env rq)) = Some (JNum (int (upStatus up)))
          \<and> field ''upstreamBody'' (reply (handler v pf env rq))
              = Some (if v = Part003a \<and> \<not> debugFlag env then cutText b else b)"
        using v assms(1,2) reject_strict[OF _ _ nok b, of _ _ env rq c]
        by (auto simp: handler_part001_def handler_part003a_def)
      moreover from this read_body_cases[OF b]
      have "v = Part001 \<or> debugFlag env \<or> cutText b = b \<longrightarrow>
               includesUpstream pf up (reply (handler v pf env rq))"
        using v includes_from_fields[of "''status''" "reply (handler v pf env rq)" up "''upstreamBody''" b pf]
        by auto
      ultimately have "status (reply (handler v pf env rq)) = upStatus up
          \<and> field ''status'' (reply (handler v pf env rq)) = Some (JNum (int (upStatus up)))
          \<and> field ''upstreamBody'' (reply (handler v pf env rq))
              = Some (if v = Part003a \<and> \<not> debugFlag env then cutText b else b)
          \<and> (v = Part001 \<or> debugFlag env \<or> cutText b = b \<longrightarrow>
               includesUpstream pf up (reply (handler v pf env rq)))" by blast }
    then show ?thesis using r by blast
  qed
  show ?thesis using t s by blast
qed

theorem upstream_rejection_witness:
  "calls (handler Part000 (demoPlatform badKey403) demoEnv (streamed ''{}'')) = [demoCall ''{}'']
   \<and> fetch (demoPlatform badKey403) (demoCall ''{}'') = Inr badKey403
   \<and> 300 \<le> upStatus badKey403
   \<and> status (reply (handler Part000 (demoPlatform badKey403) demoEnv (streamed ''{}''))) = 502
   \<and> field ''upstreamStatus'' (reply (handler Part000 (demoPlatform badKey403) demoEnv (streamed ''{}'')))
       = Some (JNum 403)
   \<and> field ''upstreamBody'' (reply (handler Part000 (demoPlatform badKey403) demoEnv (streamed ''{}'')))
       = Some (JObj [(''error'', JStr ''bad key'')])
   \<and> calls (handler Part001 (demoPlatform badKey403) demoEnv (requestOf ''POST'' (Some lead)))
       = [demoCall ''{...}'']
   \<and> status (reply (handler Part001 (demoPlatform badKey403) demoEnv (requestOf ''POST'' (Some lead))))
       = 403
   \<and> field ''upstreamBody''
        (reply (handler Part001 (demoPlatform badKey403) demoEnv (requestOf ''POST'' (Some lead))))
       = Some (JObj [(''error'', JStr ''bad key'')])"
proof -
  have c0: "calls (handler Part000 (demoPlatform badKey403) demoEnv (streamed ''{}'')) = [demoCall ''{}'']"
    by (simp add: handler_part000_def demo_defs eval_defs demoCall_def)
  have c1: "calls (handler Part001 (demoPlatform badKey403) demoEnv (requestOf ''POST'' (Some lead)))
       = [demoCall ''{...}'']"
    by (simp add: handler_part001_def strictRelay_def demo_defs eval_defs demoCall_def char_of_eq_iff)
  have f: "fetch (demoPlatform badKey403) (demoCall b) = Inr badKey403" for b
    by (simp add: demoPlatform_def)
  have s: "300 \<le> upStatus badKey403" by (simp add: badKey403_def)
  have p: "parseOrRaw (demoPlatform badKey403) (upText badKey403) = JObj [(''error'', JStr ''bad key'')]"
    "readByContentType (demoPlatform badKey403) badKey403 = Inr (JObj [(''error'', JStr ''bad key'')])"
    "upStatus badKey403 = 403"
    by (simp_all add: demo_defs eval_defs)
  show ?thesis
    using upstream_rejection[OF c0 f s] upstream_rejection[OF c1 f s] c0 c1 f s p
    by (simp add: cutText_def)
qed

text \<open>
  Claim C3 as stated fails: the first handler of \<open>part_003\<close>, debug off, reports of an
  upstream text of 501 units only the first 500.
\<close>

lemma long_text: "length s \<noteq> 501 \<Longrightarrow> replicate 501 c \<noteq> s"
  by (metis length_replicate)

theorem upstream_rejection_counterexample:
  "calls (handler Part003a (demoPlatform longText500) demoEnv (requestOf ''POST'' (Some lead)))
     = [demoCall ''{...}'']
   \<and> fetch (demoPlatform longText500) (demoCall ''{...}'') = Inr longText500
   \<and> upStatus longText500 = 500 \<and> length (upText longText500) = 501
   \<and> field ''upstreamBody'' (reply (handler Part003a (demoPlatform longText500) demoEnv
        (requestOf ''POST'' (Some lead)))) = Some (JStr (replicate 500 (CHR ''x'')))
   \<and> \<not> includesUpstream (demoPlatform longText500) longText500
         (reply (handler Part003a (demoPlatform longText500) demoEnv (requestOf ''POST'' (Some lead))))"
  by (simp add: handler_part003a_def strictRelay_def demo_defs eval_defs demoCall_def
      includesUpstream_def long_text char_of_eq_iff replicate_eq_replicate)

end
